theory Spec2Isabelle
  imports Main
begin

section \<open>JavaScript values\<close>

text \<open>
  The values that cross the RPC boundary and that the registry stores. Numbers are
  integers (no NaN, no fractions); a function value is a reference \<open>JFn n\<close> into a table
  of function bodies, so that \<open>typeof\<close> and identity are those of the program. An Error
  object is \<open>JError\<close> with its properties (\<open>message\<close> and whatever was assigned to it).
\<close>

datatype jsval =
    JUndefined
  | JNull
  | JBool bool
  | JNum int
  | JStr string
  | JArr "jsval list"
  | JObj "(string \<times> jsval) list"
  | JError "(string \<times> jsval) list"
  | JFn nat

fun typeof :: "jsval \<Rightarrow> string" where
  "typeof JUndefined = ''undefined''"
| "typeof JNull = ''object''"
| "typeof (JBool b) = ''boolean''"
| "typeof (JNum n) = ''number''"
| "typeof (JStr s) = ''string''"
| "typeof (JArr xs) = ''object''"
| "typeof (JObj fs) = ''object''"
| "typeof (JError fs) = ''object''"
| "typeof (JFn f) = ''function''"

text \<open>What \<open>if(v)\<close>, \<open>v || w\<close> and \<open>v && w\<close> test.\<close>

fun truthy :: "jsval \<Rightarrow> bool" where
  "truthy JUndefined = False"
| "truthy JNull = False"
| "truthy (JBool b) = b"
| "truthy (JNum n) = (n \<noteq> 0)"
| "truthy (JStr s) = (s \<noteq> [])"
| "truthy (JArr xs) = True"
| "truthy (JObj fs) = True"
| "truthy (JError fs) = True"
| "truthy (JFn f) = True"

definition newError :: "string \<Rightarrow> jsval" where
  "newError msg = JError [(''message'', JStr msg)]"

definition typeError :: "string \<Rightarrow> jsval" where
  "typeError msg = JError [(''name'', JStr ''TypeError''), (''message'', JStr msg)]"

text \<open>
  Reading a property, \<open>v.k\<close> or \<open>v[k]\<close>: a TypeError on \<open>null\<close> and \<open>undefined\<close>, the
  own property of an object, \<open>undefined\<close> where there is none. Only own properties are
  modelled, apart from the \<open>name\<close> every Error inherits.
\<close>

fun getProp :: "jsval \<Rightarrow> string \<Rightarrow> jsval + jsval" where
  "getProp JUndefined k = Inl (typeError (''Cannot read property '' @ k @ '' of undefined''))"
| "getProp JNull k = Inl (typeError (''Cannot read property '' @ k @ '' of null''))"
| "getProp (JObj fs) k = Inr (case map_of fs k of Some v \<Rightarrow> v | None \<Rightarrow> JUndefined)"
| "getProp (JError fs) k =
     Inr (case map_of fs k of Some v \<Rightarrow> v
          | None \<Rightarrow> if k = ''name'' then JStr ''Error'' else JUndefined)"
| "getProp v k = Inr JUndefined"

text \<open>Assigning a property, \<open>o.k = v\<close>, on an object or an Error.\<close>

fun setKey :: "string \<Rightarrow> jsval \<Rightarrow> (string \<times> jsval) list \<Rightarrow> (string \<times> jsval) list" where
  "setKey k v [] = [(k, v)]"
| "setKey k v ((k', v') # fs) = (if k = k' then (k, v) # fs else (k', v') # setKey k v fs)"

fun setProp :: "string \<Rightarrow> jsval \<Rightarrow> jsval \<Rightarrow> jsval" where
  "setProp k v (JObj fs) = JObj (setKey k v fs)"
| "setProp k v (JError fs) = JError (setKey k v fs)"
| "setProp k v w = w"

section \<open>Promises and the functions the program calls\<close>

text \<open>
  A promise is represented by its settlement. A reaction attached with \<open>.then\<close> is run
  by the model at the moment its promise settles; the program's promise library runs it in
  a later turn of the event loop, which changes when a derived promise settles, not
  whether it does nor with what. The one reaction that reads state the program changes
  in between, the re-read of the actors table after a wait, is queued as a job and run
  in a later turn (see \<open>runJobs\<close>).
\<close>

datatype 'a settle = Pending | Fulfilled 'a | Rejected jsval

text \<open>
  What calling a function of the host program does: it returns a plain value, throws, or
  returns a promise that fulfils, rejects or never settles.
\<close>

datatype outcome =
    Returns jsval
  | Throws jsval
  | Resolves jsval
  | Rejects jsval
  | NeverSettles

text \<open>
  helpers.js, \<open>runEnsuringPromise\<close>: a synchronous throw becomes a rejection; a result
  that is truthy and has a truthy \<open>then\<close> is handed back as it is, anything else goes
  through \<open>Promise.resolve\<close>. A returned promise is described by the last three outcomes;
  a plain value with a truthy \<open>then\<close> is not a promise, and is returned all the same.
\<close>

datatype ensured = Promised "jsval settle" | NotAPromise jsval

definition hasThen :: "jsval \<Rightarrow> bool" where
  "hasThen v = (truthy v \<and> (case getProp v ''then'' of Inr t \<Rightarrow> truthy t | Inl e \<Rightarrow> False))"

definition runEnsuringPromise :: "(jsval list \<Rightarrow> outcome) \<Rightarrow> jsval list \<Rightarrow> ensured" where
  "runEnsuringPromise fn params =
     (case fn params of
        Throws e \<Rightarrow> Promised (Rejected e)
      | Returns v \<Rightarrow> (if hasThen v then NotAPromise v else Promised (Fulfilled v))
      | Resolves v \<Rightarrow> Promised (Fulfilled v)
      | Rejects e \<Rightarrow> Promised (Rejected e)
      | NeverSettles \<Rightarrow> Promised Pending)"

text \<open>
  Calling \<open>.then\<close> on what \<open>runEnsuringPromise\<close> returned: the settlement of a promise
  (\<open>Inr\<close>); for a value that is no promise, a TypeError when its \<open>then\<close> is no function
  (\<open>Inl\<close>), and otherwise a thenable of the host program, which is taken never to call
  back.
\<close>

definition thenOf :: "ensured \<Rightarrow> jsval + jsval settle" where
  "thenOf r =
     (case r of
        Promised s \<Rightarrow> Inr s
      | NotAPromise v \<Rightarrow>
          (case getProp v ''then'' of
             Inr (JFn f) \<Rightarrow> Inr Pending
           | _ \<Rightarrow> Inl (typeError ''then is not a function'')))"

text \<open>Which constructor built a promise: the ambient global \<open>Promise\<close>, or an injected one.\<close>

datatype ctor = GlobalPromise | Injected nat

text \<open>
  Whether \<open>runEnsuringPromise\<close> builds a promise itself (\<open>Promise.reject\<close> for a throw,
  \<open>Promise.resolve\<close> for a plain value) or hands back what the function returned.
\<close>

definition buildsPromise :: "(jsval list \<Rightarrow> outcome) \<Rightarrow> jsval list \<Rightarrow> bool" where
  "buildsPromise fn params =
     (case fn params of
        Throws e \<Rightarrow> True
      | Returns v \<Rightarrow> \<not> hasThen v
      | _ \<Rightarrow> False)"

section \<open>The actor registry (actors.js)\<close>

definition REGISTRATION_TIMEOUT :: nat where
  "REGISTRATION_TIMEOUT = 500"

definition callTimeout :: nat where
  "callTimeout = 500"

text \<open>
  A slot of the \<open>actors\<close> table holds the \<open>EXPIRED\<close> sentinel (an object of its own,
  compared by identity) or whatever \<open>exposeActor\<close> stored there.
\<close>

datatype slot = EXPIRED | Actor jsval

fun slotTruthy :: "slot option \<Rightarrow> bool" where
  "slotTruthy None = False"
| "slotTruthy (Some EXPIRED) = True"
| "slotTruthy (Some (Actor v)) = truthy v"

fun slotValue :: "slot option \<Rightarrow> jsval" where
  "slotValue None = JUndefined"
| "slotValue (Some EXPIRED) = JObj []"
| "slotValue (Some (Actor v)) = v"

text \<open>
  What the handler does with the actor once \<open>waitForActor\<close> has it: \<open>runCall\<close> of
  \<open>call\<close>, or the property read of \<open>getActorProperty\<close>.
\<close>

datatype cont = RunCall string "jsval list" | GetProperty string

text \<open>
  The listeners of the \<open>actorRegistrations\<close> emitter, all one-shot: the waiter that
  \<open>eventToPromise\<close> registers for promise \<open>pid\<close> of a request for actor \<open>aid\<close> (the id), and
  the listener on \<open>deregister:<id>\<close> that switches an actor's event proxy off.
\<close>

datatype rlistener = RegWaiter nat ctor string cont | ProxyOff string

text \<open>
  A job of the promise library: the reaction of a waiter whose event has arrived, still to
  be run, for promise \<open>pid\<close> of a request for actor \<open>aid\<close>.
\<close>

datatype job = AfterWait nat ctor string cont

fun jobPid :: "job \<Rightarrow> nat" where
  "jobPid (AfterWait pid P aid k) = pid"

datatype tkind = RegistrationTimer | CallTimer

record timer =
  deadline :: nat
  tpid :: nat
  kind :: tkind

record registry =
  actors :: "string \<rightharpoonup> slot"
  actorRegistrations :: "(string \<times> rlistener) list"
  jobs :: "job list"
  promises :: "jsval settle list"
  timers :: "timer list"
  now :: nat
  created :: "ctor list"
  code :: "nat \<Rightarrow> jsval \<Rightarrow> jsval list \<Rightarrow> outcome"

text \<open>
  \<open>promises\<close> holds the promise each handler call returned, by number; \<open>created\<close> logs,
  in order, the constructor of every promise the registry builds; \<open>code f this args\<close> is
  the body of function value \<open>JFn f\<close>; \<open>now\<close> is the clock in milliseconds; \<open>jobs\<close>
  are the reactions waiting for their turn.

  The table is a plain object, \<open>var actors = {}\<close>, read with \<open>actors[id]\<close>: for an id
  that names a member of \<open>Object.prototype\<close> the read finds that member, a function (or,
  for \<open>__proto__\<close>, the prototype object), so such an id is never free. The program only
  reads and assigns slots, so the model puts these members into the table of a new
  registry. The function values 100 to 110 stand for the built-in functions; their bodies
  are in \<open>code\<close> like every other, and their own properties are left out like those
  of every function value.
\<close>

definition prototypeFunctions :: "(string \<times> jsval) list" where
  "prototypeFunctions =
     [(''constructor'', JFn 100), (''toString'', JFn 101), (''toLocaleString'', JFn 102),
      (''valueOf'', JFn 103), (''hasOwnProperty'', JFn 104), (''isPrototypeOf'', JFn 105),
      (''propertyIsEnumerable'', JFn 106), (''__defineGetter__'', JFn 107),
      (''__defineSetter__'', JFn 108), (''__lookupGetter__'', JFn 109),
      (''__lookupSetter__'', JFn 110)]"

definition objectPrototype :: "(string \<times> jsval) list" where
  "objectPrototype = prototypeFunctions @ [(''__proto__'', JObj prototypeFunctions)]"

definition register :: "(nat \<Rightarrow> jsval \<Rightarrow> jsval list \<Rightarrow> outcome) \<Rightarrow> registry" where
  "register c = \<lparr> actors = map_of (map (\<lambda>(k, v). (k, Actor v)) objectPrototype),
                  actorRegistrations = [], jobs = [], promises = [], timers = [],
                  now = 0, created = [], code = c \<rparr>"

definition build :: "ctor \<Rightarrow> registry \<Rightarrow> registry" where
  "build P reg = reg\<lparr> created := created reg @ [P] \<rparr>"

definition settlePromise :: "nat \<Rightarrow> jsval settle \<Rightarrow> registry \<Rightarrow> registry" where
  "settlePromise pid s reg = reg\<lparr> promises := (promises reg)[pid := s] \<rparr>"

text \<open>\<open>_.methods(actor)\<close>: the names of the function-valued properties.\<close>

fun methodsOf :: "jsval \<Rightarrow> jsval" where
  "methodsOf (JObj fs) = JArr (map (JStr \<circ> fst) (filter (\<lambda>(k, v). typeof v = ''function'') fs))"
| "methodsOf (JError fs) = JArr (map (JStr \<circ> fst) (filter (\<lambda>(k, v). typeof v = ''function'') fs))"
| "methodsOf v = JArr []"

text \<open>
  \<open>runCall\<close>, the reaction of \<open>call\<close>: look the method up on the actor; reject with
  \<open>ActorNoSuchMethod\<close> when it is no function, otherwise run it bound to the actor under
  the call timeout.

  Modelled from the spec: \<open>promiseHelpers.timeout(P, n, p, msg)\<close> of the library
  universal-promise-helpers, which is not part of the repository: a promise built by \<open>P\<close>
  that settles as \<open>p\<close> does, unless \<open>n\<close> milliseconds pass first, and then rejects with an
  Error whose message is \<open>msg\<close>. Here it is the timer the model starts when \<open>p\<close> is pending;
  it gets at \<open>p\<close> through \<open>p.then\<close>, as \<open>thenOf\<close> describes.
\<close>

definition runCall :: "ctor \<Rightarrow> nat \<Rightarrow> string \<Rightarrow> jsval list \<Rightarrow> jsval \<Rightarrow> registry \<Rightarrow> registry" where
  "runCall P pid method params actor reg =
     (case getProp actor method of
        Inl e \<Rightarrow> settlePromise pid (Rejected e) reg
      | Inr fn \<Rightarrow>
          (case fn of
             JFn f \<Rightarrow>
               (let reg1 = (if buildsPromise (code reg f actor) params then build P reg else reg)
                in case thenOf (runEnsuringPromise (code reg f actor) params) of
                     Inl e \<Rightarrow> build P (settlePromise pid (Rejected e) reg1)
                   | Inr Pending \<Rightarrow>
                       build P (reg1\<lparr> timers := timers reg1 @
                         [\<lparr> deadline = now reg1 + callTimeout, tpid = pid, kind = CallTimer \<rparr>] \<rparr>)
                   | Inr s \<Rightarrow> build P (settlePromise pid s reg1))
           | _ \<Rightarrow>
               build P (settlePromise pid
                 (Rejected (setProp ''methods'' (methodsOf actor)
                    (setProp ''method'' (JStr method) (newError ''ActorNoSuchMethod'')))) reg)))"

text \<open>
  \<open>notExpired\<close>, nested in \<open>waitForActor\<close>: a promise rejected with \<open>ActorExpired\<close>,
  built by the injected constructor, for the sentinel (\<open>Inl\<close>), the value itself otherwise.
\<close>

definition notExpired :: "ctor \<Rightarrow> slot option \<Rightarrow> registry \<Rightarrow> (jsval + jsval) \<times> registry" where
  "notExpired P found reg =
     (if found = Some EXPIRED then (Inl (newError ''ActorExpired''), build P reg)
      else (Inr (slotValue found), reg))"

text \<open>The reaction a handler attached to the promise of \<open>waitForActor\<close>, run on the actor.\<close>

fun react :: "ctor \<Rightarrow> nat \<Rightarrow> cont \<Rightarrow> jsval \<Rightarrow> registry \<Rightarrow> registry" where
  "react P pid (RunCall method params) actor reg = runCall P pid method params actor reg"
| "react P pid (GetProperty property) actor reg =
     (case getProp actor property of
        Inl e \<Rightarrow> settlePromise pid (Rejected e) reg
      | Inr v \<Rightarrow> settlePromise pid (Fulfilled v) reg)"

text \<open>
  The reaction \<open>waitForActor\<close> itself attaches in its waiting branch:
  \<open>notExpired(actors[id])\<close>, then the handler's reaction. It reads the table as it is
  when the reaction runs, a turn after the registration event.
\<close>

definition registered :: "nat \<Rightarrow> ctor \<Rightarrow> string \<Rightarrow> cont \<Rightarrow> registry \<Rightarrow> registry" where
  "registered pid P aid k reg =
     (case notExpired P (actors reg aid) reg of
        (Inl e, reg') \<Rightarrow> settlePromise pid (Rejected e) reg'
      | (Inr actor, reg') \<Rightarrow> react P pid k actor reg')"

text \<open>
  A listener of \<open>actorRegistrations\<close> runs: the waiter fulfils its promise, which queues
  the reaction attached to it; the proxy listener clears its flag.
\<close>

fun fire :: "rlistener \<Rightarrow> registry \<Rightarrow> registry" where
  "fire (RegWaiter pid P aid k) reg = reg\<lparr> jobs := jobs reg @ [AfterWait pid P aid k] \<rparr>"
| "fire (ProxyOff aid) reg = reg"

fun jobsOf :: "rlistener list \<Rightarrow> job list" where
  "jobsOf [] = []"
| "jobsOf (RegWaiter pid P aid k # ls) = AfterWait pid P aid k # jobsOf ls"
| "jobsOf (ProxyOff aid # ls) = jobsOf ls"

text \<open>
  The promise library takes its turn: the queued reactions run, in the order they were
  queued.
\<close>

fun runJob :: "job \<Rightarrow> registry \<Rightarrow> registry" where
  "runJob (AfterWait pid P aid k) reg = registered pid P aid k reg"

definition runJobs :: "registry \<Rightarrow> registry" where
  "runJobs reg = fold runJob (jobs reg) (reg\<lparr> jobs := [] \<rparr>)"

text \<open>
  \<open>actorRegistrations.emit(ev)\<close>: the listeners registered for \<open>ev\<close> run in the order
  they were added; each is one-shot, so it is removed from the emitter.
\<close>

definition emitRegistration :: "string \<Rightarrow> registry \<Rightarrow> registry" where
  "emitRegistration ev reg =
     fold fire (map snd (filter (\<lambda>(e, l). e = ev) (actorRegistrations reg)))
       (reg\<lparr> actorRegistrations := filter (\<lambda>(e, l). e \<noteq> ev) (actorRegistrations reg) \<rparr>)"

text \<open>
  \<open>exposeActorEvents\<close>, nested in \<open>exposeActor\<close>: reading \<open>actor.on\<close> throws on \<open>null\<close>;
  an actor with a function \<open>on\<close> has its \<open>emit\<close> wrapped, and the wrapper is switched off
  by a one-shot listener on \<open>deregister:<id>\<close>, which stands for the proxy here.
\<close>

definition exposeActorEvents :: "string \<Rightarrow> jsval \<Rightarrow> registry \<Rightarrow> jsval option \<times> registry" where
  "exposeActorEvents aid actor reg =
     (case getProp actor ''on'' of
        Inl e \<Rightarrow> (Some e, reg)
      | Inr on \<Rightarrow>
          (if typeof on \<noteq> ''function'' then (None, reg)
           else (None, reg\<lparr> actorRegistrations :=
                   actorRegistrations reg @ [(''deregister:'' @ aid, ProxyOff aid)] \<rparr>)))"

text \<open>
  \<open>exposeActor(id, actor)\<close>. The first component is the error thrown, if any; the
  registry is returned in both cases, since a throw does not undo an assignment made
  before it.
\<close>

definition exposeActor :: "string \<Rightarrow> jsval \<Rightarrow> registry \<Rightarrow> jsval option \<times> registry" where
  "exposeActor aid actor reg =
     (if typeof actor \<noteq> ''object'' then (Some (newError ''actor must be object''), reg)
      else if slotTruthy (actors reg aid)
        then (Some (newError (''duplicate actor id: '' @ aid)), reg)
      else
        (case exposeActorEvents aid actor (reg\<lparr> actors := (actors reg)(aid \<mapsto> Actor actor) \<rparr>) of
           (Some e, reg') \<Rightarrow> (Some e, reg')
         | (None, reg') \<Rightarrow> (None, emitRegistration (''register:'' @ aid) reg')))"

definition expireActor :: "string \<Rightarrow> registry \<Rightarrow> registry" where
  "expireActor aid reg =
     emitRegistration (''deregister:'' @ aid) (reg\<lparr> actors := (actors reg)(aid \<mapsto> EXPIRED) \<rparr>)"

definition getLocalActor :: "string \<Rightarrow> registry \<Rightarrow> jsval" where
  "getLocalActor aid reg = slotValue (actors reg aid)"

text \<open>
  \<open>waitForActor(PromiseConstructor, id, n)\<close> followed by the \<open>.then(k)\<close> of its caller.
  It returns the number of the promise the handler hands back.

  A truthy slot is answered at once, through the ambient \<open>Promise.resolve\<close> (taken to
  exist in the host): that builds a promise with the global constructor, unless its
  argument is already one of the global constructor's promises; the caller's \<open>.then\<close>
  derives one more from it. A falsy slot registers a one-shot waiter on \<open>register:<id>\<close>
  and starts the timer.

  Modelled from the spec: \<open>promiseHelpers.eventToPromise(P, emitter, ev)\<close> of
  universal-promise-helpers, not part of the repository: a promise built by \<open>P\<close> that
  a one-shot listener on \<open>ev\<close> fulfils with the event's first argument; and
  \<open>promiseHelpers.timeout\<close> as above, whose expiry removes the waiter.
\<close>

definition waitForActor :: "ctor \<Rightarrow> string \<Rightarrow> nat \<Rightarrow> cont \<Rightarrow> registry \<Rightarrow> nat \<times> registry" where
  "waitForActor P aid n k reg =
     (let pid = length (promises reg);
          reg0 = reg\<lparr> promises := promises reg @ [Pending] \<rparr>
      in if slotTruthy (actors reg aid) then
           (case notExpired P (actors reg aid) reg0 of
              (Inl e, reg1) \<Rightarrow>
                (pid, build GlobalPromise
                        (settlePromise pid (Rejected e)
                           (if P = GlobalPromise then reg1 else build GlobalPromise reg1)))
            | (Inr actor, reg1) \<Rightarrow>
                (pid, react P pid k actor (build GlobalPromise (build GlobalPromise reg1))))
         else
           (pid, build P (build P (build P (build P
              (reg0\<lparr> actorRegistrations :=
                        actorRegistrations reg0 @ [(''register:'' @ aid, RegWaiter pid P aid k)],
                     timers := timers reg0 @
                        [\<lparr> deadline = now reg0 + n, tpid = pid, kind = RegistrationTimer \<rparr>] \<rparr>))))))"

text \<open>
  The two handlers \<open>exposeActorApiOnNode\<close> exposes: \<open>call\<close>, named here after the
  method name \<open>callActor\<close> it is exposed under (the pair has a \<open>call\<close> of its own), and
  \<open>getActorProperty\<close>. The actor id and the method name are strings.
\<close>

definition callActor :: "ctor \<Rightarrow> string \<Rightarrow> string \<Rightarrow> jsval list \<Rightarrow> registry \<Rightarrow> nat \<times> registry" where
  "callActor P aid method params reg =
     waitForActor P aid REGISTRATION_TIMEOUT (RunCall method params) reg"

definition getActorProperty :: "ctor \<Rightarrow> string \<Rightarrow> string \<Rightarrow> registry \<Rightarrow> nat \<times> registry" where
  "getActorProperty P aid property reg =
     waitForActor P aid REGISTRATION_TIMEOUT (GetProperty property) reg"

text \<open>
  A timer that is due. The registration timer rejects its promise when the waiter is
  still registered, and removes the waiter; the call timer rejects a promise that is still
  pending.
\<close>

fun isWaiter :: "nat \<Rightarrow> string \<times> rlistener \<Rightarrow> bool" where
  "isWaiter pid (e, RegWaiter q P aid k) = (q = pid)"
| "isWaiter pid (e, ProxyOff aid) = False"

definition fireTimer :: "timer \<Rightarrow> registry \<Rightarrow> registry" where
  "fireTimer t reg =
     (case kind t of
        RegistrationTimer \<Rightarrow>
          (if list_ex (isWaiter (tpid t)) (actorRegistrations reg)
           then settlePromise (tpid t) (Rejected (newError ''ActorRegistrationTimeout''))
                  (reg\<lparr> actorRegistrations :=
                          filter (\<lambda>l. \<not> isWaiter (tpid t) l) (actorRegistrations reg) \<rparr>)
           else reg)
      | CallTimer \<Rightarrow>
          (if tpid t < length (promises reg) \<and> promises reg ! tpid t = Pending
           then settlePromise (tpid t) (Rejected (newError ''ActorCallTimeout'')) reg
           else reg))"

text \<open>Letting \<open>d\<close> milliseconds pass: the timers that are due fire, oldest first.\<close>

definition elapse :: "nat \<Rightarrow> registry \<Rightarrow> registry" where
  "elapse d reg =
     (let t = now reg + d
      in fold fireTimer (filter (\<lambda>x. deadline x \<le> t) (timers reg))
           (reg\<lparr> now := t, timers := filter (\<lambda>x. t < deadline x) (timers reg) \<rparr>))"

text \<open>
  The life of a registry: the operations that reach it, in any order, the turn of the
  promise library among them. The two handlers are run for their effect on the registry;
  the number of the promise is dropped.
\<close>

datatype rop =
    ExposeActor string jsval
  | ExpireActor string
  | CallActor ctor string string "jsval list"
  | GetActorProperty ctor string string
  | Elapse nat
  | RunJobs

fun rstep :: "rop \<Rightarrow> registry \<Rightarrow> registry" where
  "rstep (ExposeActor aid actor) reg = snd (exposeActor aid actor reg)"
| "rstep (ExpireActor aid) reg = expireActor aid reg"
| "rstep (CallActor P aid method params) reg = snd (callActor P aid method params reg)"
| "rstep (GetActorProperty P aid property) reg = snd (getActorProperty P aid property reg)"
| "rstep (Elapse d) reg = elapse d reg"
| "rstep RunJobs reg = runJobs reg"

text \<open>
  Every waiter, every job and every timer of a registry belongs to a promise the registry
  has handed out. This holds of a new registry and is kept by every operation.
\<close>

fun waiterBelow :: "nat \<Rightarrow> string \<times> rlistener \<Rightarrow> bool" where
  "waiterBelow n (e, RegWaiter q P aid k) = (q < n)"
| "waiterBelow n (e, ProxyOff aid) = True"

definition numbered :: "registry \<Rightarrow> bool" where
  "numbered reg =
     (list_all (waiterBelow (length (promises reg))) (actorRegistrations reg) \<and>
      list_all (\<lambda>j. jobPid j < length (promises reg)) (jobs reg) \<and>
      list_all (\<lambda>t. tpid t < length (promises reg)) (timers reg))"







text \<open>What the regular expression \<open>/pat/\<close> tests: \<open>pat\<close> occurs somewhere in the string.\<close>

definition matches :: "string \<Rightarrow> string \<Rightarrow> bool" where
  "matches pat s = list_ex (\<lambda>i. take (length pat) (drop i s) = pat) [0..<Suc (length s)]"

section \<open>The pair (rpcjs.js)\<close>

text \<open>
  A frame on the wire. A field that a frame of its type does not carry is empty; for
  \<open>result\<close> and \<open>error\<close>, which the program tests with \<open>in\<close>, presence is explicit.
\<close>

record message =
  mid :: string
  mtype :: string
  mmethod :: string
  mparams :: "jsval list"
  mevent :: string
  mdata :: "jsval list"
  mresult :: "jsval option"
  merror :: "jsval option"

definition frameObj :: "message \<Rightarrow> jsval" where
  "frameObj m =
     JObj ([(''id'', JStr (mid m)), (''type'', JStr (mtype m))]
           @ (if mtype m = ''call''
                then [(''method'', JStr (mmethod m)), (''params'', JArr (mparams m))] else [])
           @ (if mtype m = ''notify''
                then [(''event'', JStr (mevent m)), (''data'', JArr (mdata m))] else [])
           @ (case mresult m of Some v \<Rightarrow> [(''result'', v)] | None \<Rightarrow> [])
           @ (case merror m of Some v \<Rightarrow> [(''error'', v)] | None \<Rightarrow> []))"

text \<open>
  The send function a transport installs, seen from the pair: the result frames it feeds
  back into \<open>incoming\<close> before it returns (a peer on an in-process loopback answers from
  inside the call), and the error it throws, if any.
\<close>

record reply =
  rid :: string
  rresult :: "jsval option"
  rerror :: "jsval option"

definition replyFrame :: "reply \<Rightarrow> message" where
  "replyFrame r = \<lparr> mid = rid r, mtype = ''result'', mmethod = [], mparams = [], mevent = [],
                    mdata = [], mresult = rresult r, merror = rerror r \<rparr>"

type_synonym transport = "message \<Rightarrow> reply list \<times> jsval option"

text \<open>An argument of an event of the local emitter: a frame, or a value of a notification.\<close>

datatype evarg = Frame message | Val jsval

text \<open>
  The listeners of \<open>localListeners\<close>: the one-shot waiter of \<open>eventToPromise\<close> for the
  promise with that number, and a listener of the host program (its identity, whether it
  was added with \<open>once\<close>, and what it throws, if it throws).
\<close>

datatype listener = Waiter nat | User nat bool "jsval option"

text \<open>
  What the pair does to the world, in order: it calls the send function with a frame, it
  invokes a listener of the host program, it hands an error to \<open>opts.error\<close>.
\<close>

datatype effect = SendCalled message | Heard nat "evarg list" | Sunk jsval

record pair =
  name :: string
  methods :: "string \<rightharpoonup> (jsval list \<Rightarrow> outcome)"
  localListeners :: "(string \<times> listener) list"
  send :: transport
  timeout :: nat
  emitTimeout :: nat
  outgoingId :: nat
  waiting :: "evarg settle list"
  ptimers :: "(nat \<times> string) list"
  trace :: "effect list"

text \<open>
  \<open>waiting\<close> holds the promise of each \<open>acknowledgedWrite\<close>, by number; \<open>ptimers\<close> the
  running timeouts (promise and message); \<open>outgoingId\<close> is the counter of the module.
\<close>

definition missingSend :: transport where
  "missingSend m = ([], Some (newError ''missing send function''))"

text \<open>
  \<open>create(opts)\<close>, the constructor: \<open>nm\<close> is \<open>opts.name\<close>, \<open>sink\<close> says whether
  \<open>opts.error\<close> is a function, \<open>t\<close> and \<open>et\<close> are the two timeouts when they are given.
  Until \<open>setSend\<close> is called the send function throws. The table of methods holds
  what \<open>expose\<close> puts there; that the program's table, a plain object, also answers
  to the names of the members of \<open>Object.prototype\<close> is left out.
\<close>

definition create :: "string \<Rightarrow> bool \<Rightarrow> nat option \<Rightarrow> nat option \<Rightarrow> jsval + pair" where
  "create nm sink t et =
     (if nm = [] then Inl (newError ''pair must have a name'')
      else if \<not> sink then Inl (newError ''must handle errors via opts.error'')
      else Inr \<lparr> name = nm, methods = Map.empty, localListeners = [], send = missingSend,
                 timeout = (case t of Some n \<Rightarrow> n | None \<Rightarrow> 500),
                 emitTimeout = (case et of Some n \<Rightarrow> n | None \<Rightarrow> 500),
                 outgoingId = 0, waiting = [], ptimers = [], trace = [] \<rparr>)"

definition expose :: "string \<Rightarrow> (jsval list \<Rightarrow> outcome) \<Rightarrow> pair \<Rightarrow> pair" where
  "expose nm fn p = p\<lparr> methods := (methods p)(nm \<mapsto> fn) \<rparr>"

definition setSend :: "transport \<Rightarrow> pair \<Rightarrow> pair" where
  "setSend fn p = p\<lparr> send := fn \<rparr>"

definition on :: "string \<Rightarrow> nat \<Rightarrow> jsval option \<Rightarrow> pair \<Rightarrow> pair" where
  "on ev l thrown p = p\<lparr> localListeners := localListeners p @ [(ev, User l False thrown)] \<rparr>"

definition once :: "string \<Rightarrow> nat \<Rightarrow> jsval option \<Rightarrow> pair \<Rightarrow> pair" where
  "once ev l thrown p = p\<lparr> localListeners := localListeners p @ [(ev, User l True thrown)] \<rparr>"

definition error :: "jsval \<Rightarrow> pair \<Rightarrow> pair" where
  "error err p = p\<lparr> trace := trace p @ [Sunk err] \<rparr>"

definition resultEvent :: "message \<Rightarrow> string" where
  "resultEvent m = ''result:'' @ mid m"

text \<open>
  \<open>localListeners.emit(ev, args)\<close>: the listeners registered for \<open>ev\<close> when the event is
  emitted run in the order they were added; a one-shot listener is removed before it
  runs; a listener that throws ends the emission, and the error goes to whoever emitted.
  A waiter fulfils its promise with the first argument. What Node's emitter does for an
  event named \<open>error\<close> that has no listener is not modelled.
\<close>

definition resolveWaiter :: "nat \<Rightarrow> evarg list \<Rightarrow> pair \<Rightarrow> pair" where
  "resolveWaiter pid args p =
     (if pid < length (waiting p) \<and> waiting p ! pid = Pending
      then p\<lparr> waiting := (waiting p)[pid := Fulfilled (case args of [] \<Rightarrow> Val JUndefined | a # as \<Rightarrow> a)] \<rparr>
      else p)"

fun deliver :: "listener list \<Rightarrow> string \<Rightarrow> evarg list \<Rightarrow> pair \<Rightarrow> jsval option \<times> pair" where
  "deliver [] ev args p = (None, p)"
| "deliver (Waiter pid # ls) ev args p =
     deliver ls ev args
       (resolveWaiter pid args (p\<lparr> localListeners := remove1 (ev, Waiter pid) (localListeners p) \<rparr>))"
| "deliver (User l one thrown # ls) ev args p =
     (let p1 = (if one then p\<lparr> localListeners := remove1 (ev, User l one thrown) (localListeners p) \<rparr>
                else p);
          p2 = p1\<lparr> trace := trace p1 @ [Heard l args] \<rparr>
      in case thrown of Some e \<Rightarrow> (Some e, p2) | None \<Rightarrow> deliver ls ev args p2)"

definition emitLocal :: "string \<Rightarrow> evarg list \<Rightarrow> pair \<Rightarrow> jsval option \<times> pair" where
  "emitLocal ev args p =
     deliver (map snd (filter (\<lambda>(e, l). e = ev) (localListeners p))) ev args p"

text \<open>
  Calling the installed send function. The frames it feeds back are result frames, which
  \<open>incoming\<close> hands to the local emitter; an error a listener throws there goes back to
  the transport that delivered the frame, not to the caller of send.
\<close>

definition transmit :: "message \<Rightarrow> pair \<Rightarrow> jsval option \<times> pair" where
  "transmit m p =
     (case send p m of
        (replies, thrown) \<Rightarrow>
          (thrown,
           fold (\<lambda>r q. snd (emitLocal (resultEvent (replyFrame r)) [Frame (replyFrame r)] q))
             replies (p\<lparr> trace := trace p @ [SendCalled m] \<rparr>)))"

text \<open>
  \<open>write\<close> of the source, named \<open>writeFrame\<close> here: a synchronous error of send goes
  to the error sink.
\<close>

definition writeFrame :: "message \<Rightarrow> pair \<Rightarrow> pair" where
  "writeFrame m p = (case transmit m p of (None, p') \<Rightarrow> p' | (Some e, p') \<Rightarrow> error e p')"

definition sendResult :: "string \<Rightarrow> jsval \<Rightarrow> pair \<Rightarrow> pair" where
  "sendResult i result p =
     writeFrame \<lparr> mid = i, mtype = ''result'', mmethod = [], mparams = [], mevent = [], mdata = [],
             mresult = Some (if truthy result then result else JNull), merror = None \<rparr> p"

text \<open>
  \<open>sendError\<close>: the payload is \<open>_.extend({name, message, stack}, error)\<close>. Reading the
  three fields throws when what was thrown or rejected is \<open>null\<close> or \<open>undefined\<close>. The
  text of a stack trace is not modelled.
\<close>

fun ownProps :: "jsval \<Rightarrow> (string \<times> jsval) list" where
  "ownProps (JObj fs) = fs"
| "ownProps (JError fs) = fs"
| "ownProps v = []"

definition extend :: "(string \<times> jsval) list \<Rightarrow> (string \<times> jsval) list \<Rightarrow> (string \<times> jsval) list" where
  "extend dst src = fold (\<lambda>(k, v) acc. setKey k v acc) src dst"

definition errorPayload :: "jsval \<Rightarrow> jsval + jsval" where
  "errorPayload e =
     (case getProp e ''name'' of
        Inl t \<Rightarrow> Inl t
      | Inr n \<Rightarrow>
          (case getProp e ''message'' of
             Inl t \<Rightarrow> Inl t
           | Inr msg \<Rightarrow>
               (case getProp e ''stack'' of
                  Inl t \<Rightarrow> Inl t
                | Inr st \<Rightarrow>
                    Inr (JObj (extend [(''name'', n), (''message'', msg), (''stack'', st)]
                                 (ownProps e))))))"

definition sendError :: "string \<Rightarrow> jsval \<Rightarrow> pair \<Rightarrow> jsval option \<times> pair" where
  "sendError i e p =
     (case errorPayload e of
        Inl t \<Rightarrow> (Some t, p)
      | Inr payload \<Rightarrow>
          (None, writeFrame \<lparr> mid = i, mtype = ''result'', mmethod = [], mparams = [], mevent = [],
                         mdata = [], mresult = None, merror = Some payload \<rparr> p))"

text \<open>
  \<open>callIncoming\<close>. The reply is written by the reaction to the handler's promise; an
  error thrown inside that reaction is lost in the promise chain. A handler result that
  is no promise and whose \<open>then\<close> is no function makes the \<open>.then\<close> call itself throw.
\<close>

definition callIncoming :: "message \<Rightarrow> pair \<Rightarrow> jsval option \<times> pair" where
  "callIncoming m p =
     (case methods p (mmethod m) of
        Some fn \<Rightarrow>
          (case thenOf (runEnsuringPromise fn (mparams m)) of
             Inl t \<Rightarrow> (Some t, p)
           | Inr (Fulfilled v) \<Rightarrow> (None, sendResult (mid m) v p)
           | Inr (Rejected e) \<Rightarrow> (None, snd (sendError (mid m) e p))
           | Inr Pending \<Rightarrow> (None, p))
      | None \<Rightarrow>
          sendError (mid m)
            (setProp ''params'' (JArr (mparams m))
               (setProp ''method'' (JStr (mmethod m)) (newError ''NoSuchMethod''))) p)"

text \<open>
  \<open>notifyIncoming\<close>, with \<open>opts.wrapEffects\<close> as the parameter \<open>w\<close>: a function of the
  host program that is given the closure delivering the event to the local listeners.
\<close>

definition notifyIncoming ::
  "((pair \<Rightarrow> jsval option \<times> pair) \<Rightarrow> pair \<Rightarrow> jsval option \<times> pair) \<Rightarrow> message \<Rightarrow> pair
     \<Rightarrow> jsval option \<times> pair" where
  "notifyIncoming w m p =
     w (emitLocal (mevent m) (map Val (mdata m))) (sendResult (mid m) JUndefined p)"

definition wrapEffectsDefault :: "(pair \<Rightarrow> jsval option \<times> pair) \<Rightarrow> pair \<Rightarrow> jsval option \<times> pair" where
  "wrapEffectsDefault fn p = fn p"

definition incoming ::
  "((pair \<Rightarrow> jsval option \<times> pair) \<Rightarrow> pair \<Rightarrow> jsval option \<times> pair) \<Rightarrow> message \<Rightarrow> pair
     \<Rightarrow> jsval option \<times> pair" where
  "incoming w m p =
     (if mtype m = ''call'' then callIncoming m p
      else if mtype m = ''notify'' then notifyIncoming w m p
      else if mtype m = ''result'' then emitLocal (resultEvent m) [Frame m] p
      else (None, error (JStr ''unknown message type'') p))"

text \<open>Decimal digits of a number, for \<open>name + ":" + outgoingId\<close> and the timeout message.\<close>

fun showNat :: "nat \<Rightarrow> string" where
  "showNat n = (if n < 10 then [''0123456789'' ! n]
                else showNat (n div 10) @ [''0123456789'' ! (n mod 10)])"

declare showNat.simps [simp del]

definition createNextOutgoingId :: "pair \<Rightarrow> string \<times> pair" where
  "createNextOutgoingId p =
     (name p @ '':'' @ showNat (outgoingId p + 1), p\<lparr> outgoingId := outgoingId p + 1 \<rparr>)"

text \<open>
  \<open>acknowledgedWrite\<close>: register the one-shot waiter, call send, then race the waiter
  against the timeout. It returns the number of the promise it hands back: the rejected
  promise built in the catch branch, or the promise of the race.

  Modelled from the spec: \<open>promiseHelpers.eventToPromise\<close> and \<open>promiseHelpers.timeout\<close>
  of universal-promise-helpers, as in the registry.
\<close>

definition acknowledgedWrite :: "message \<Rightarrow> nat \<Rightarrow> pair \<Rightarrow> nat \<times> pair" where
  "acknowledgedWrite m t p =
     (let pid = length (waiting p);
          p1 = p\<lparr> waiting := waiting p @ [Pending],
                  localListeners := localListeners p @ [(resultEvent m, Waiter pid)] \<rparr>
      in case transmit m p1 of
           (Some e, p2) \<Rightarrow> (length (waiting p2), p2\<lparr> waiting := waiting p2 @ [Rejected e] \<rparr>)
         | (None, p2) \<Rightarrow>
             (pid, p2\<lparr> ptimers := ptimers p2 @
                 [(pid, ''TimeoutWaitingForWriteAck<'' @ mid m @ '','' @ mtype m
                        @ '',duration: '' @ showNat t @ ''>'')] \<rparr>))"

text \<open>The timeout of promise \<open>pid\<close> expires: a pending promise is rejected, its waiter removed.\<close>

definition timeoutFires :: "nat \<Rightarrow> pair \<Rightarrow> pair" where
  "timeoutFires pid p =
     (case map_of (ptimers p) pid of
        None \<Rightarrow> p
      | Some msg \<Rightarrow>
          (if pid < length (waiting p) \<and> waiting p ! pid = Pending
           then p\<lparr> waiting := (waiting p)[pid := Rejected (newError msg)],
                   localListeners := filter (\<lambda>(e, l). l \<noteq> Waiter pid) (localListeners p),
                   ptimers := filter (\<lambda>(q, s). q \<noteq> pid) (ptimers p) \<rparr>
           else p\<lparr> ptimers := filter (\<lambda>(q, s). q \<noteq> pid) (ptimers p) \<rparr>))"

text \<open>
  \<open>ensureError\<close>: an Error is marked remote; anything else becomes an Error carrying the
  fields of the value, with \<open>message\<close> defaulting to \<open>RejectedWithNonError\<close>.
\<close>

definition defaults :: "(string \<times> jsval) list \<Rightarrow> (string \<times> jsval) list \<Rightarrow> (string \<times> jsval) list" where
  "defaults dst src =
     fold (\<lambda>(k, v) acc. (case map_of acc k of
                            None \<Rightarrow> setKey k v acc
                          | Some JUndefined \<Rightarrow> setKey k v acc
                          | Some x \<Rightarrow> acc)) src dst"

fun ensureError :: "jsval \<Rightarrow> jsval" where
  "ensureError (JError fs) = JError (setKey ''remote'' (JBool True) fs)"
| "ensureError err =
     (let properties = defaults (if truthy err then ownProps err else [])
                         [(''message'', JStr ''RejectedWithNonError'')]
      in JError (extend [(''remote'', JBool True)] properties))"

text \<open>
  \<open>handleResult\<close>, the reaction \<open>call\<close> attaches. The \<open>in\<close> operator throws on a value
  that is no object, and the throw rejects the promise.
\<close>

fun hasKey :: "string \<Rightarrow> evarg \<Rightarrow> bool option" where
  "hasKey k (Frame m) =
     Some (if k = ''result'' then mresult m \<noteq> None
           else if k = ''error'' then merror m \<noteq> None
           else k \<in> set (map fst (ownProps (frameObj m))))"
| "hasKey k (Val (JObj fs)) = Some (k \<in> set (map fst fs))"
| "hasKey k (Val (JError fs)) = Some (k \<in> set (map fst fs))"
| "hasKey k (Val (JArr xs)) = Some False"
| "hasKey k (Val (JFn f)) = Some False"
| "hasKey k (Val v) = None"

fun argValue :: "evarg \<Rightarrow> jsval" where
  "argValue (Frame m) = frameObj m"
| "argValue (Val v) = v"

definition field :: "string \<Rightarrow> evarg \<Rightarrow> jsval" where
  "field k x = (case getProp (argValue x) k of Inr v \<Rightarrow> v | Inl e \<Rightarrow> JUndefined)"

definition handleResult :: "evarg \<Rightarrow> jsval settle" where
  "handleResult result =
     (case hasKey ''result'' result of
        None \<Rightarrow> Rejected (typeError ''Cannot use in operator'')
      | Some True \<Rightarrow> Fulfilled (field ''result'' result)
      | Some False \<Rightarrow>
          (if hasKey ''error'' result = Some True
           then Rejected (ensureError (field ''error'' result))
           else Rejected (setProp ''result'' (argValue result) (newError ''invalid result''))))"

text \<open>
  \<open>call\<close> and \<open>emit\<close>; \<open>opt\<close> is the timeout of the options argument, when it has one.
  The promise \<open>call\<close> returns is the one of \<open>acknowledgedWrite\<close> followed by
  \<open>handleResult\<close>; \<open>emit\<close> returns the promise of \<open>acknowledgedWrite\<close> itself.
\<close>

definition call :: "nat option \<Rightarrow> string \<Rightarrow> jsval list \<Rightarrow> pair \<Rightarrow> nat \<times> pair" where
  "call opt method params p =
     (case createNextOutgoingId p of
        (i, p1) \<Rightarrow>
          acknowledgedWrite
            \<lparr> mid = i, mtype = ''call'', mmethod = method, mparams = params, mevent = [],
              mdata = [], mresult = None, merror = None \<rparr>
            (case opt of Some t \<Rightarrow> t | None \<Rightarrow> timeout p1) p1)"

definition callPromise :: "nat \<Rightarrow> pair \<Rightarrow> jsval settle" where
  "callPromise pid p =
     (if pid < length (waiting p)
      then (case waiting p ! pid of
              Pending \<Rightarrow> Pending
            | Fulfilled x \<Rightarrow> handleResult x
            | Rejected e \<Rightarrow> Rejected e)
      else Pending)"

definition emit :: "nat option \<Rightarrow> string \<Rightarrow> jsval list \<Rightarrow> pair \<Rightarrow> nat \<times> pair" where
  "emit opt evt dat p =
     (case createNextOutgoingId p of
        (i, p1) \<Rightarrow>
          acknowledgedWrite
            \<lparr> mid = i, mtype = ''notify'', mmethod = [], mparams = [], mevent = evt,
              mdata = dat, mresult = None, merror = None \<rparr>
            (case opt of Some t \<Rightarrow> t | None \<Rightarrow> emitTimeout p1) p1)"


text \<open>Reading the trace: the errors handed to \<open>opts.error\<close>, and the frames handed to send.\<close>

fun sunkOf :: "effect \<Rightarrow> jsval list" where
  "sunkOf (Sunk e) = [e]"
| "sunkOf x = []"

definition sunk :: "pair \<Rightarrow> jsval list" where
  "sunk p = concat (map sunkOf (trace p))"

fun sentOf :: "effect \<Rightarrow> message list" where
  "sentOf (SendCalled m) = [m]"
| "sentOf x = []"

definition sent :: "pair \<Rightarrow> message list" where
  "sent p = concat (map sentOf (trace p))"

text \<open>
  The life of a pair: what reaches it, in any order. A frame arrives from the transport
  (\<open>incoming\<close>, with the default \<open>wrapEffects\<close>), the host program calls, emits, adds
  a listener, exposes a method or installs a send function, the timeout of a promise
  expires.
\<close>

datatype pop =
    Incoming message
  | Call "nat option" string "jsval list"
  | Emit "nat option" string "jsval list"
  | On string nat "jsval option"
  | Once string nat "jsval option"
  | Expose string "jsval list \<Rightarrow> outcome"
  | SetSend transport
  | TimeoutFires nat

fun pstep :: "pop \<Rightarrow> pair \<Rightarrow> pair" where
  "pstep (Incoming m) p = snd (incoming wrapEffectsDefault m p)"
| "pstep (Call opt method params) p = snd (call opt method params p)"
| "pstep (Emit opt evt dat) p = snd (emit opt evt dat p)"
| "pstep (On ev l thrown) p = on ev l thrown p"
| "pstep (Once ev l thrown) p = once ev l thrown p"
| "pstep (Expose nm fn) p = expose nm fn p"
| "pstep (SetSend fn) p = setSend fn p"
| "pstep (TimeoutFires pid) p = timeoutFires pid p"




text \<open>
  The waiters of a pair are those of ids it has issued, for promises it has made
  (\<open>tidy\<close>); a call that waits has the only listener on its event (\<open>waitsFor\<close>).
\<close>

definition issuedId :: "string \<Rightarrow> pair \<Rightarrow> bool" where
  "issuedId i p = list_ex (\<lambda>k. i = name p @ '':'' @ showNat k) [1..<Suc (outgoingId p)]"




definition waitsFor :: "string \<Rightarrow> nat \<Rightarrow> pair \<Rightarrow> bool" where
  "waitsFor ev pid p =
     (pid < length (waiting p) \<and> waiting p ! pid = Pending \<and>
      filter (\<lambda>(e, l). e = ev) (localListeners p) = [(ev, Waiter pid)] \<and>
      filter (\<lambda>(e, l). l = Waiter pid) (localListeners p) = [(ev, Waiter pid)])"

section \<open>Two pairs, connected as in rpcjs.test.js\<close>

text \<open>
  \<open>createServerClientPair\<close> of the tests creates the two pairs with a timeout of 75 ms
  and connects them in process, \<open>client.setSend(server.incoming)\<close>: the client's send
  function runs the server's \<open>incoming\<close> on the frame, and the result frames the server
  writes in answer come back before send returns. In \<open>loopback\<close> the server is taken as
  it stands when the frame arrives, and what it writes is read off its trace: its own
  send function only has to take the frames. \<open>noop\<close> is the \<open>_.noop\<close> the tests install
  as a send function that delivers nothing.
\<close>

definition noop :: transport where
  "noop m = ([], None)"

definition asReply :: "message \<Rightarrow> reply" where
  "asReply m = \<lparr> rid = mid m, rresult = mresult m, rerror = merror m \<rparr>"

definition loopback ::
  "((pair \<Rightarrow> jsval option \<times> pair) \<Rightarrow> pair \<Rightarrow> jsval option \<times> pair) \<Rightarrow> pair \<Rightarrow> transport" where
  "loopback w peer m =
     (case incoming w m peer of
        (thrown, peer') \<Rightarrow>
          (map asReply (filter (\<lambda>x. mtype x = ''result'') (drop (length (sent peer)) (sent peer'))),
           thrown))"

definition testServer :: pair where
  "testServer = setSend noop (projr (create ''server'' True (Some 75) None))"

definition testClient :: "pair \<Rightarrow> pair" where
  "testClient server =
     setSend (loopback wrapEffectsDefault server) (projr (create ''client'' True (Some 75) None))"

text \<open>The method \<open>echo: x \<Rightarrow> x\<close>.\<close>

definition echo :: "jsval list \<Rightarrow> outcome" where
  "echo args = Returns (case args of [] \<Rightarrow> JUndefined | x # xs \<Rightarrow> x)"

section \<open>Properties of the registry\<close>

text \<open>
  The operations of the registry that do not assign to the \<open>actors\<close> table leave it as
  it is; an expired slot stays expired under every operation.
\<close>

lemma actors_build [simp]: "actors (build P reg) = actors reg"
  by (simp add: build_def)

lemma actors_settlePromise [simp]: "actors (settlePromise pid s reg) = actors reg"
  by (simp add: settlePromise_def)

lemma actors_runCall [simp]: "actors (runCall P pid method params actor reg) = actors reg"
  by (simp add: runCall_def Let_def split: sum.splits jsval.splits settle.splits)

lemma actors_react [simp]: "actors (react P pid k actor reg) = actors reg"
  by (cases k) (simp_all split: sum.splits)

lemma actors_registered [simp]: "actors (registered pid P aid k reg) = actors reg"
  by (simp add: registered_def notExpired_def split: prod.splits sum.splits)

lemma actors_fire [simp]: "actors (fire l reg) = actors reg"
  by (cases l) simp_all

lemma actors_fold_fire [simp]: "actors (fold fire ls reg) = actors reg"
  by (induction ls arbitrary: reg) simp_all

lemma actors_emitRegistration [simp]: "actors (emitRegistration ev reg) = actors reg"
  by (simp add: emitRegistration_def)

lemma actors_runJob [simp]: "actors (runJob j reg) = actors reg"
  by (cases j) simp

lemma actors_fold_runJob [simp]: "actors (fold runJob js reg) = actors reg"
  by (induction js arbitrary: reg) simp_all

lemma actors_runJobs [simp]: "actors (runJobs reg) = actors reg"
  by (simp add: runJobs_def)

lemma actors_waitForActor [simp]: "actors (snd (waitForActor P aid n k reg)) = actors reg"
  by (simp add: waitForActor_def Let_def notExpired_def split: prod.splits sum.splits)

lemma actors_fireTimer [simp]: "actors (fireTimer t reg) = actors reg"
  by (simp add: fireTimer_def split: tkind.splits)

lemma actors_fold_fireTimer [simp]: "actors (fold fireTimer ts reg) = actors reg"
  by (induction ts arbitrary: reg) simp_all

lemma actors_elapse [simp]: "actors (elapse d reg) = actors reg"
  by (simp add: elapse_def Let_def)

lemma exposeActor_refused:
  "slotTruthy (actors reg aid) \<Longrightarrow> fst (exposeActor aid a reg) \<noteq> None \<and> snd (exposeActor aid a reg) = reg"
  by (simp add: exposeActor_def)

lemma exposeActor_keeps_expired:
  "actors reg aid = Some EXPIRED \<Longrightarrow> actors (snd (exposeActor b a reg)) aid = Some EXPIRED"
  by (auto simp add: exposeActor_def exposeActorEvents_def split: prod.splits sum.splits option.splits if_splits)

lemma expireActor_keeps_expired:
  "actors reg aid = Some EXPIRED \<Longrightarrow> actors (expireActor b reg) aid = Some EXPIRED"
  by (simp add: expireActor_def)

lemma rstep_keeps_expired:
  "actors reg aid = Some EXPIRED \<Longrightarrow> actors (rstep x reg) aid = Some EXPIRED"
  by (cases x) (simp_all add: exposeActor_keeps_expired expireActor_keeps_expired callActor_def getActorProperty_def)

lemma expired_forever:
  "actors reg aid = Some EXPIRED \<Longrightarrow> actors (fold rstep ops reg) aid = Some EXPIRED"
  by (induction ops arbitrary: reg) (simp_all add: rstep_keeps_expired)

lemma exposeActor_on_expired:
  "actors reg aid = Some EXPIRED \<Longrightarrow>
     exposeActor aid a reg =
       (Some (if typeof a \<noteq> ''object'' then newError ''actor must be object''
              else newError (''duplicate actor id: '' @ aid)), reg)"
  by (simp add: exposeActor_def)

lemma waitForActor_expired:
  "actors reg aid = Some EXPIRED \<Longrightarrow>
     fst (waitForActor P aid n k reg) = length (promises reg) \<and>
     promises (snd (waitForActor P aid n k reg)) = promises reg @ [Rejected (newError ''ActorExpired'')]"
  by (simp add: waitForActor_def Let_def notExpired_def build_def settlePromise_def)

text \<open>
  Claim C10. \<open>expireActor(id)\<close> has no failing path: for every id and every registry,
  also one in which the id was never exposed, it leaves the \<open>EXPIRED\<close> sentinel in the
  slot. From then on, whatever operations the registry goes through, \<open>exposeActor(id, a)\<close>
  throws and leaves the registry as it was, and for every \<open>a\<close> that passes the object
  check the error is \<open>duplicate actor id: <id>\<close>.
\<close>

theorem expireActor_unbindable:
  "actors (expireActor aid reg) aid = Some EXPIRED \<and>
   (let reg' = fold rstep ops (expireActor aid reg)
    in fst (exposeActor aid a reg') \<noteq> None \<and>
       snd (exposeActor aid a reg') = reg' \<and>
       (typeof a = ''object'' \<longrightarrow>
          fst (exposeActor aid a reg') = Some (newError (''duplicate actor id: '' @ aid))))"
proof -
  have e: "actors (expireActor aid reg) aid = Some EXPIRED"
    by (simp add: expireActor_def)
  have "actors (fold rstep ops (expireActor aid reg)) aid = Some EXPIRED"
    using e by (rule expired_forever)
  then show ?thesis
    using e by (simp add: Let_def exposeActor_on_expired newError_def)
qed

text \<open>Claim C10 on an id that was never exposed, expired in a new registry.\<close>

theorem expireActor_unbindable_witness:
  "actors (expireActor ''ghost'' (register (\<lambda>f this args. Returns JUndefined))) ''ghost'' = Some EXPIRED \<and>
   fst (exposeActor ''ghost'' (JObj [])
          (fold rstep [Elapse 1000, ExposeActor ''other'' (JObj [])]
             (expireActor ''ghost'' (register (\<lambda>f this args. Returns JUndefined)))))
     = Some (newError ''duplicate actor id: ghost'')"
  using expireActor_unbindable [of "''ghost''" "register (\<lambda>f this args. Returns JUndefined)"
      "[Elapse 1000, ExposeActor ''other'' (JObj [])]" "JObj []"]
  by (simp add: Let_def)

text \<open>
  Claim C6. After \<open>expireActor(id)\<close>, and whatever operations follow it, the promise of a
  \<open>callActor\<close> and of a \<open>getActorProperty\<close> request for the id is rejected with the
  Error \<open>ActorExpired\<close>, whose message matches \<open>/Expired/\<close> and is still
  \<open>ActorExpired\<close> after \<open>sendError\<close> and the caller's \<open>ensureError\<close>;
  \<open>exposeActor(id, a)\<close> throws and changes nothing, with \<open>duplicate actor id: <id>\<close> for every \<open>a\<close> that
  passes the object check.
\<close>

theorem expired_actor_rejects:
  "(let reg' = fold rstep ops (expireActor aid reg);
        c = callActor P aid method params reg';
        g = getActorProperty P aid property reg'
    in promises (snd c) ! fst c = Rejected (newError ''ActorExpired'') \<and>
       promises (snd g) ! fst g = Rejected (newError ''ActorExpired'') \<and>
       getProp (newError ''ActorExpired'') ''message'' = Inr (JStr ''ActorExpired'') \<and>
       (case errorPayload (newError ''ActorExpired'') of
          Inl t \<Rightarrow> False
        | Inr payload \<Rightarrow>
            getProp (ensureError payload) ''message'' = Inr (JStr ''ActorExpired'')) \<and>
       matches ''Expired'' ''ActorExpired'' \<and>
       fst (exposeActor aid a reg') \<noteq> None \<and>
       snd (exposeActor aid a reg') = reg' \<and>
       (typeof a = ''object'' \<longrightarrow>
          fst (exposeActor aid a reg') = Some (newError (''duplicate actor id: '' @ aid))))"
proof -
  have e: "actors (expireActor aid reg) aid = Some EXPIRED"
    by (simp add: expireActor_def)
  have x: "actors (fold rstep ops (expireActor aid reg)) aid = Some EXPIRED"
    using e by (rule expired_forever)
  have m: "matches ''Expired'' ''ActorExpired''"
    by (simp add: matches_def upt_rec)
  have w: "(case errorPayload (newError ''ActorExpired'') of
              Inl t \<Rightarrow> False
            | Inr payload \<Rightarrow>
                getProp (ensureError payload) ''message'' = Inr (JStr ''ActorExpired''))"
    by (simp add: errorPayload_def newError_def extend_def defaults_def)
  show ?thesis
    using x m w
    by (simp add: Let_def callActor_def getActorProperty_def waitForActor_expired
        exposeActor_on_expired newError_def)
qed

text \<open>Claim C6 on the actor of the tests, exposed, expired, and asked for a second later.\<close>

theorem expired_actor_rejects_witness:
  "(let reg' = fold rstep [Elapse 1000]
                 (expireActor ''incrementer-1''
                    (snd (exposeActor ''incrementer-1'' (JObj [(''increment'', JFn 0)])
                            (register (\<lambda>f this args. Returns (JNum 1))))));
        c = callActor (Injected 0) ''incrementer-1'' ''increment'' [] reg'
    in promises (snd c) ! fst c = Rejected (newError ''ActorExpired'') \<and>
       fst (exposeActor ''incrementer-1'' (JObj [(''increment'', JFn 0)]) reg')
         = Some (newError ''duplicate actor id: incrementer-1''))"
  using expired_actor_rejects [of "[Elapse 1000]" "''incrementer-1''"
      "snd (exposeActor ''incrementer-1'' (JObj [(''increment'', JFn 0)])
              (register (\<lambda>f this args. Returns (JNum 1))))"
      "Injected 0" "''increment''" "[]" "''value''" "JObj [(''increment'', JFn 0)]"]
  by (simp add: Let_def)

text \<open>
  What each step of the registry does to one promise \<open>p\<close>: to its settlement, its
  waiter, its job and its timers.
\<close>

lemma build_fields [simp]:
  "promises (build P reg) = promises reg" "code (build P reg) = code reg"
  "actorRegistrations (build P reg) = actorRegistrations reg" "jobs (build P reg) = jobs reg"
  "timers (build P reg) = timers reg" "now (build P reg) = now reg"
  by (simp_all add: build_def)

lemma settlePromise_fields [simp]:
  "length (promises (settlePromise pid s reg)) = length (promises reg)"
  "code (settlePromise pid s reg) = code reg"
  "actorRegistrations (settlePromise pid s reg) = actorRegistrations reg"
  "jobs (settlePromise pid s reg) = jobs reg"
  "timers (settlePromise pid s reg) = timers reg" "now (settlePromise pid s reg) = now reg"
  by (simp_all add: settlePromise_def)

lemma settlePromise_other [simp]:
  "q \<noteq> p \<Longrightarrow> promises (settlePromise q s reg) ! p = promises reg ! p"
  by (simp add: settlePromise_def)

lemma settlePromise_same [simp]:
  "p < length (promises reg) \<Longrightarrow> promises (settlePromise p s reg) ! p = s"
  by (simp add: settlePromise_def)

lemma runCall_fields [simp]:
  "length (promises (runCall P q m ps a reg)) = length (promises reg)"
  "code (runCall P q m ps a reg) = code reg"
  "actorRegistrations (runCall P q m ps a reg) = actorRegistrations reg"
  "jobs (runCall P q m ps a reg) = jobs reg"
  "now (runCall P q m ps a reg) = now reg"
  by (simp_all add: runCall_def Let_def split: sum.splits jsval.splits settle.splits)

lemma runCall_other [simp]:
  "q \<noteq> p \<Longrightarrow> promises (runCall P q m ps a reg) ! p = promises reg ! p"
  by (simp add: runCall_def Let_def split: sum.splits jsval.splits settle.splits)


lemma react_fields [simp]:
  "length (promises (react P q k a reg)) = length (promises reg)"
  "code (react P q k a reg) = code reg"
  "actorRegistrations (react P q k a reg) = actorRegistrations reg"
  "jobs (react P q k a reg) = jobs reg"
  "now (react P q k a reg) = now reg"
  by (cases k; simp split: sum.splits)+

lemma react_other [simp]:
  "q \<noteq> p \<Longrightarrow> promises (react P q k a reg) ! p = promises reg ! p"
  by (cases k) (simp_all split: sum.splits)


lemma registered_fields [simp]:
  "length (promises (registered q P aid k reg)) = length (promises reg)"
  "code (registered q P aid k reg) = code reg"
  "actorRegistrations (registered q P aid k reg) = actorRegistrations reg"
  "jobs (registered q P aid k reg) = jobs reg"
  "now (registered q P aid k reg) = now reg"
  by (simp_all add: registered_def notExpired_def)

lemma registered_other [simp]:
  "q \<noteq> p \<Longrightarrow> promises (registered q P aid k reg) ! p = promises reg ! p"
  by (simp add: registered_def notExpired_def)


lemma runJob_fields [simp]:
  "length (promises (runJob j reg)) = length (promises reg)"
  "code (runJob j reg) = code reg"
  "actorRegistrations (runJob j reg) = actorRegistrations reg"
  "jobs (runJob j reg) = jobs reg"
  "now (runJob j reg) = now reg"
  by (cases j; simp)+

lemma runJob_other [simp]:
  "jobPid j \<noteq> p \<Longrightarrow> promises (runJob j reg) ! p = promises reg ! p"
  by (cases j) simp


lemma fold_runJob_fields [simp]:
  "length (promises (fold runJob js reg)) = length (promises reg)"
  "code (fold runJob js reg) = code reg"
  "actorRegistrations (fold runJob js reg) = actorRegistrations reg"
  "jobs (fold runJob js reg) = jobs reg"
  "now (fold runJob js reg) = now reg"
  by (induction js arbitrary: reg; simp)+


lemma fold_fire_eq: "fold fire ls reg = reg\<lparr> jobs := jobs reg @ jobsOf ls \<rparr>"
proof (induction ls arbitrary: reg)
  case Nil
  show ?case by simp
next
  case (Cons l ls)
  show ?case by (cases l) (simp_all add: Cons.IH)
qed

lemma emitRegistration_eq:
  "emitRegistration ev reg =
     reg\<lparr> actorRegistrations := filter (\<lambda>(e, l). e \<noteq> ev) (actorRegistrations reg),
          jobs := jobs reg @ jobsOf (map snd (filter (\<lambda>(e, l). e = ev) (actorRegistrations reg))) \<rparr>"
  by (simp add: emitRegistration_def fold_fire_eq)




lemma emitRegistration_fields [simp]:
  "promises (emitRegistration ev reg) = promises reg"
  "timers (emitRegistration ev reg) = timers reg"
  "now (emitRegistration ev reg) = now reg"
  "code (emitRegistration ev reg) = code reg"
  by (simp_all add: emitRegistration_eq)




lemma fireTimer_fields [simp]:
  "length (promises (fireTimer t reg)) = length (promises reg)"
  "code (fireTimer t reg) = code reg"
  "jobs (fireTimer t reg) = jobs reg"
  "timers (fireTimer t reg) = timers reg"
  "now (fireTimer t reg) = now reg"
  by (simp_all add: fireTimer_def split: tkind.splits)




lemma fold_fireTimer_fields [simp]:
  "length (promises (fold fireTimer ts reg)) = length (promises reg)"
  "code (fold fireTimer ts reg) = code reg"
  "jobs (fold fireTimer ts reg) = jobs reg"
  "timers (fold fireTimer ts reg) = timers reg"
  "now (fold fireTimer ts reg) = now reg"
  by (induction ts arbitrary: reg; simp)+

lemma elapse_fields [simp]:
  "length (promises (elapse d reg)) = length (promises reg)"
  "code (elapse d reg) = code reg"
  "jobs (elapse d reg) = jobs reg"
  "timers (elapse d reg) = filter (\<lambda>x. now reg + d < deadline x) (timers reg)"
  "now (elapse d reg) = now reg + d"
  by (simp_all add: elapse_def Let_def)





lemma runJobs_fields [simp]:
  "length (promises (runJobs reg)) = length (promises reg)"
  "code (runJobs reg) = code reg"
  "actorRegistrations (runJobs reg) = actorRegistrations reg"
  "jobs (runJobs reg) = []"
  "now (runJobs reg) = now reg"
  by (simp_all add: runJobs_def)




























lemma numbered_build [simp]: "numbered (build P reg) = numbered reg"
  by (simp add: numbered_def)

lemma numbered_settlePromise [simp]: "numbered (settlePromise pid s reg) = numbered reg"
  by (simp add: numbered_def)



















text \<open>
  An id that names a member of \<open>Object.prototype\<close> is never free: in a new registry
  \<open>exposeActor\<close> refuses it as a duplicate, and a request for it registers no waiter.
\<close>

lemma prototype_id_taken:
  "fst (exposeActor ''constructor'' a (register c)) \<noteq> None \<and>
   snd (exposeActor ''constructor'' a (register c)) = register c \<and>
   actorRegistrations (snd (callActor P ''constructor'' m ps (register c))) = []"
proof -
  have t: "slotTruthy (actors (register c) ''constructor'')"
    by (simp add: register_def objectPrototype_def prototypeFunctions_def)
  have "actorRegistrations (snd (waitForActor P ''constructor'' n k (register c))) = []" for n k
    using t by (simp add: waitForActor_def Let_def notExpired_def register_def del: react.simps)
  then show ?thesis
    using exposeActor_refused [OF t, of a] by (simp add: callActor_def)
qed


text \<open>
  Whenever the slot is truthy, \<open>waitForActor\<close> builds a promise with the ambient
  global constructor, whichever constructor was injected.
\<close>

lemma waitForActor_found_global:
  assumes "slotTruthy (actors reg aid)"
  shows "GlobalPromise \<in> set (created (snd (waitForActor P aid n k reg)))"
proof -
  have b: "\<And>r. created (build GlobalPromise r) = created r @ [GlobalPromise]"
    by (simp add: build_def)
  have rc: "\<And>pid m ps a r. set (created r) \<subseteq> set (created (runCall P pid m ps a r))"
    by (auto simp add: runCall_def Let_def build_def settlePromise_def
        split: sum.splits jsval.splits settle.splits)
  have re: "\<And>pid a r. set (created r) \<subseteq> set (created (react P pid k a r))"
    using rc by (cases k) (auto simp add: settlePromise_def split: sum.splits)
  show ?thesis
  proof (cases "actors reg aid = Some EXPIRED")
    case True
    then show ?thesis
      by (simp add: waitForActor_def Let_def notExpired_def b settlePromise_def)
  next
    case False
    define r where "r = build GlobalPromise (build GlobalPromise
        (reg\<lparr> promises := promises reg @ [Pending] \<rparr>))"
    have "GlobalPromise \<in> set (created r)"
      by (simp add: r_def b)
    then have "GlobalPromise \<in> set (created (react P (length (promises reg)) k
        (slotValue (actors reg aid)) r))"
      using re by blast
    then show ?thesis
      using assms False by (simp add: waitForActor_def Let_def notExpired_def r_def)
  qed
qed

text \<open>
  Claim C7 says that every promise of the \<open>waitForActor\<close>, \<open>callActor\<close> and
  \<open>getActorProperty\<close> paths is built by the injected constructor. With the constructor
  \<open>Injected 0\<close> and the actor already exposed, the promises built by a \<open>callActor\<close>
  request are, in order: two by the ambient global \<open>Promise\<close> (\<open>Promise.resolve\<close>
  in \<open>waitForActor\<close> and the \<open>.then\<close> on its result), then two by the injected
  constructor inside \<open>runCall\<close>; a \<open>getActorProperty\<close> request builds both of its
  promises with the global one.
\<close>

theorem waitForActor_builds_with_global_promise:
  "created (snd (callActor (Injected 0) ''incrementer-1'' ''increment'' []
      (snd (exposeActor ''incrementer-1'' (JObj [(''value'', JNum 0), (''increment'', JFn 0)])
              (register (\<lambda>f this args. Returns (JNum 1)))))))
     = [GlobalPromise, GlobalPromise, Injected 0, Injected 0]
   \<and> created (snd (getActorProperty (Injected 0) ''incrementer-1'' ''value''
      (snd (exposeActor ''incrementer-1'' (JObj [(''value'', JNum 0), (''increment'', JFn 0)])
              (register (\<lambda>f this args. Returns (JNum 1)))))))
     = [GlobalPromise, GlobalPromise]"
  by code_simp

text \<open>An argument whose \<open>typeof\<close> is not \<open>object\<close> is refused before the table is read.\<close>

lemma exposeActor_non_object:
  "typeof a \<noteq> ''object'' \<Longrightarrow>
     exposeActor aid a reg = (Some (newError ''actor must be object''), reg)"
  by (simp add: exposeActor_def)

text \<open>
  Claim C8. For every id and every argument \<open>a\<close> that is not a non-null object,
  \<open>exposeActor(id, a)\<close> fails with an error and does not bind the id: every slot of the
  table reads as it did (truthy or falsy), no slot that held something loses it, nothing
  else in the registry changes, and a later \<open>exposeActor\<close> for the id is answered as it
  would have been without the failed call. For \<open>null\<close> on a free id the object check
  passes (\<open>typeof null\<close> is \<open>object\<close>) and the failure is the TypeError of reading
  \<open>actor.on\<close>, after the slot was assigned: it holds \<open>null\<close> then, which is falsy, so
  that the duplicate check and the lookup of a request treat the id as free, as before.
\<close>

theorem exposeActor_requires_object:
  assumes "\<not> (typeof a = ''object'' \<and> a \<noteq> JNull)"
  shows "fst (exposeActor aid a reg) \<noteq> None \<and>
         (\<forall>i. slotTruthy (actors (snd (exposeActor aid a reg)) i) = slotTruthy (actors reg i)) \<and>
         (\<forall>i. slotTruthy (actors reg i) \<longrightarrow> actors (snd (exposeActor aid a reg)) i = actors reg i) \<and>
         actorRegistrations (snd (exposeActor aid a reg)) = actorRegistrations reg \<and>
         jobs (snd (exposeActor aid a reg)) = jobs reg \<and>
         promises (snd (exposeActor aid a reg)) = promises reg \<and>
         timers (snd (exposeActor aid a reg)) = timers reg \<and>
         (\<forall>b. fst (exposeActor aid b (snd (exposeActor aid a reg))) = fst (exposeActor aid b reg) \<and>
              (typeof b = ''object'' \<longrightarrow>
                 exposeActor aid b (snd (exposeActor aid a reg)) = exposeActor aid b reg))"
proof (cases "typeof a = ''object''")
  case False
  then show ?thesis by (simp add: exposeActor_def)
next
  case True
  then have a: "a = JNull" using assms by simp
  show ?thesis
  proof (cases "slotTruthy (actors reg aid)")
    case True
    then show ?thesis by (simp add: a exposeActor_def)
  next
    case False
    have e: "exposeActor aid JNull reg
               = (Some (typeError (''Cannot read property '' @ ''on'' @ '' of null'')),
                  reg\<lparr> actors := (actors reg)(aid \<mapsto> Actor JNull) \<rparr>)"
      using False by (simp add: exposeActor_def exposeActorEvents_def)
    have l: "exposeActor aid b (reg\<lparr> actors := (actors reg)(aid \<mapsto> Actor JNull) \<rparr>)
               = (if typeof b = ''object'' then exposeActor aid b reg
                  else (fst (exposeActor aid b reg), reg\<lparr> actors := (actors reg)(aid \<mapsto> Actor JNull) \<rparr>))" for b
      using False by (simp add: exposeActor_def)
    show ?thesis
      unfolding a e using False by (simp add: l)
  qed
qed

text \<open>Claim C8 for \<open>null\<close> and for a string, on an id that is free in a new registry.\<close>

theorem exposeActor_requires_object_witness:
  "fst (exposeActor ''a'' JNull (register (\<lambda>f this args. Returns (JNum 1)))) \<noteq> None \<and>
   \<not> slotTruthy (actors (snd (exposeActor ''a'' JNull
                     (register (\<lambda>f this args. Returns (JNum 1))))) ''a'') \<and>
   exposeActor ''a'' (JObj []) (snd (exposeActor ''a'' JNull
                     (register (\<lambda>f this args. Returns (JNum 1)))))
     = exposeActor ''a'' (JObj []) (register (\<lambda>f this args. Returns (JNum 1))) \<and>
   fst (exposeActor ''a'' (JStr ''actor'') (register (\<lambda>f this args. Returns (JNum 1)))) \<noteq> None"
proof -
  define reg where "reg = register (\<lambda>(f::nat) (this::jsval) (args::jsval list). Returns (JNum 1))"
  have h1: "\<not> (typeof JNull = ''object'' \<and> JNull \<noteq> JNull)"
    by simp
  have h2: "\<not> (typeof (JStr ''actor'') = ''object'' \<and> JStr ''actor'' \<noteq> JNull)"
    by simp
  have h3: "\<not> slotTruthy (actors reg ''a'')"
    by (simp add: reg_def register_def objectPrototype_def prototypeFunctions_def)
  have h4: "typeof (JObj []) = ''object''"
    by simp
  show ?thesis
    using exposeActor_requires_object [OF h1, of "''a''" reg]
      exposeActor_requires_object [OF h2, of "''a''" reg] h3 h4
    unfolding reg_def [symmetric] by metis
qed

section \<open>Properties of the pair\<close>

text \<open>
  An event nobody listens for changes nothing; an event whose only listener is a waiter
  fulfils the waiter's promise and removes the waiter.
\<close>

lemma handleResult_settles: "handleResult x \<noteq> Pending"
  by (simp add: handleResult_def split: option.splits bool.splits)



lemma emitLocal_waiter:
  assumes ls: "localListeners q = ls @ [(ev, Waiter pid)]"
    and quiet: "\<forall>l \<in> set ls. fst l \<noteq> ev"
    and pend: "pid < length (waiting q)" "waiting q ! pid = Pending"
  shows "emitLocal ev (a # as) q =
           (None, q\<lparr> localListeners := ls, waiting := (waiting q)[pid := Fulfilled a] \<rparr>)"
proof -
  have f: "filter (\<lambda>(e, l). e = ev) ls = []"
    using quiet by (auto simp add: filter_empty_conv)
  have n: "(ev, Waiter pid) \<notin> set ls"
    using quiet by auto
  show ?thesis
    using f n pend by (simp add: emitLocal_def ls resolveWaiter_def remove1_append)
qed


lemma acknowledgedWrite_answered:
  assumes tr: "send p m = ([r], None)"
    and rid: "rid r = mid m"
    and quiet: "\<forall>l \<in> set (localListeners p). fst l \<noteq> resultEvent m"
  shows "acknowledgedWrite m t p =
           (length (waiting p),
            p\<lparr> waiting := waiting p @ [Fulfilled (Frame (replyFrame r))],
                trace := trace p @ [SendCalled m],
                ptimers := ptimers p @
                  [(length (waiting p), ''TimeoutWaitingForWriteAck<'' @ mid m @ '','' @ mtype m
                        @ '',duration: '' @ showNat t @ ''>'')] \<rparr>)"
proof -
  have ev: "resultEvent (replyFrame r) = resultEvent m"
    using rid by (simp add: resultEvent_def replyFrame_def)
  define q where "q = p\<lparr> waiting := waiting p @ [Pending],
      localListeners := localListeners p @ [(resultEvent m, Waiter (length (waiting p)))],
      trace := trace p @ [SendCalled m] \<rparr>"
  have "emitLocal (resultEvent m) [Frame (replyFrame r)] q =
          (None, q\<lparr> localListeners := localListeners p,
                    waiting := (waiting q)[length (waiting p) := Fulfilled (Frame (replyFrame r))] \<rparr>)"
    by (rule emitLocal_waiter) (simp_all add: q_def quiet)
  then show ?thesis
    using tr ev by (simp add: acknowledgedWrite_def Let_def transmit_def q_def)
qed



lemma sunk_trace: "trace q = trace p \<Longrightarrow> sunk q = sunk p"
  by (simp add: sunk_def)

lemma sunk_sent [simp]: "sunk (p\<lparr> trace := trace p @ [SendCalled m] \<rparr>) = sunk p"
  by (simp add: sunk_def)




text \<open>The trace only grows, and a write puts its \<open>SendCalled\<close> first.\<close>

lemma resolveWaiter_trace [simp]: "trace (resolveWaiter pid args p) = trace p"
  by (simp add: resolveWaiter_def)

lemma deliver_extends: "\<exists>ys. trace (snd (deliver ls ev args p)) = trace p @ ys"
proof (induction ls ev args p rule: deliver.induct)
  case (1 ev args p)
  show ?case by simp
next
  case (2 pid ls ev args p)
  then show ?case by simp
next
  case (3 l one thrown ls ev args p)
  show ?case
  proof (cases thrown)
    case None
    then show ?thesis
      using 3 [OF refl refl None] by (auto simp add: Let_def)
  next
    case (Some e)
    then show ?thesis by (simp add: Let_def)
  qed
qed

lemma emitLocal_extends: "\<exists>ys. trace (snd (emitLocal ev args p)) = trace p @ ys"
  by (simp add: emitLocal_def deliver_extends)

lemma replies_extend:
  "\<exists>ys. trace (fold (\<lambda>r q. snd (emitLocal (resultEvent (replyFrame r)) [Frame (replyFrame r)] q)) rs p)
          = trace p @ ys"
proof (induction rs arbitrary: p)
  case Nil
  show ?case by simp
next
  case (Cons r rs)
  obtain ys where a: "trace (snd (emitLocal (resultEvent (replyFrame r)) [Frame (replyFrame r)] p))
                        = trace p @ ys"
    using emitLocal_extends by blast
  obtain zs where
    "trace (fold (\<lambda>r q. snd (emitLocal (resultEvent (replyFrame r)) [Frame (replyFrame r)] q)) rs
              (snd (emitLocal (resultEvent (replyFrame r)) [Frame (replyFrame r)] p)))
       = trace (snd (emitLocal (resultEvent (replyFrame r)) [Frame (replyFrame r)] p)) @ zs"
    using Cons.IH by blast
  then show ?case using a by simp
qed

lemma transmit_extends: "\<exists>ys. trace (snd (transmit m p)) = trace p @ SendCalled m # ys"
proof -
  obtain rs thrown where s: "send p m = (rs, thrown)" by (cases "send p m")
  obtain ys where
    "trace (fold (\<lambda>r q. snd (emitLocal (resultEvent (replyFrame r)) [Frame (replyFrame r)] q)) rs
              (p\<lparr> trace := trace p @ [SendCalled m] \<rparr>))
       = trace (p\<lparr> trace := trace p @ [SendCalled m] \<rparr>) @ ys"
    using replies_extend by blast
  then show ?thesis
    using s by (simp add: transmit_def)
qed

lemma writeFrame_extends: "\<exists>ys. trace (writeFrame m p) = trace p @ SendCalled m # ys"
proof -
  obtain thrown q where t: "transmit m p = (thrown, q)" by (cases "transmit m p")
  obtain ys where "trace q = trace p @ SendCalled m # ys"
    using transmit_extends [of m p] t by auto
  then show ?thesis
    using t by (cases thrown) (simp_all add: writeFrame_def error_def)
qed

text \<open>
  Claim C4. For every inbound notify frame, every send function and every effect wrapper
  that only adds to the trace, the first thing \<open>incoming\<close> adds to the trace is the call
  of send with the acknowledgement \<open>{id, type: "result", result: null}\<close>; whatever the
  wrapper and the listeners it runs do comes after it.
\<close>

theorem notify_ack_first:
  assumes notify: "mtype m = ''notify''"
    and wrapper: "\<And>q. \<exists>ys. trace (snd (w (emitLocal (mevent m) (map Val (mdata m))) q)) = trace q @ ys"
  shows "\<exists>rest. trace (snd (incoming w m p)) =
           trace p @ SendCalled \<lparr> mid = mid m, mtype = ''result'', mmethod = [], mparams = [],
                                   mevent = [], mdata = [], mresult = Some JNull, merror = None \<rparr>
                   # rest"
proof -
  define ack where "ack = \<lparr> mid = mid m, mtype = ''result'', mmethod = [], mparams = [],
      mevent = [], mdata = [], mresult = Some JNull, merror = None \<rparr>"
  have s: "sendResult (mid m) JUndefined p = writeFrame ack p"
    by (simp add: sendResult_def ack_def)
  obtain xs where xs: "trace (writeFrame ack p) = trace p @ SendCalled ack # xs"
    using writeFrame_extends by blast
  obtain ys where "trace (snd (w (emitLocal (mevent m) (map Val (mdata m))) (writeFrame ack p)))
                     = trace (writeFrame ack p) @ ys"
    using wrapper by blast
  then have "trace (snd (incoming w m p)) = trace p @ SendCalled ack # (xs @ ys)"
    using notify xs s by (simp add: incoming_def notifyIncoming_def)
  then show ?thesis
    unfolding ack_def by blast
qed

text \<open>
  Claim C4 with the default wrapper and a listener that throws: send is called with the
  acknowledgement, then the listener is invoked.
\<close>

theorem notify_ack_first_witness:
  "trace (snd (incoming wrapEffectsDefault
      \<lparr> mid = ''client:1'', mtype = ''notify'', mmethod = [], mparams = [], mevent = ''hi'',
        mdata = [JNum 7], mresult = None, merror = None \<rparr>
      (on ''hi'' 1 (Some (newError ''threw'')) testServer)))
   = [SendCalled \<lparr> mid = ''client:1'', mtype = ''result'', mmethod = [], mparams = [],
                    mevent = [], mdata = [], mresult = Some JNull, merror = None \<rparr>,
      Heard 1 [Val (JNum 7)]]"
proof -
  have h: "\<And>q. \<exists>ys. trace (snd (wrapEffectsDefault (emitLocal ''hi'' (map Val [JNum 7])) q))
                       = trace q @ ys"
    unfolding wrapEffectsDefault_def by (rule emitLocal_extends)
  have "\<exists>rest. trace (snd (incoming wrapEffectsDefault
      \<lparr> mid = ''client:1'', mtype = ''notify'', mmethod = [], mparams = [], mevent = ''hi'',
        mdata = [JNum 7], mresult = None, merror = None \<rparr>
      (on ''hi'' 1 (Some (newError ''threw'')) testServer)))
     = trace (on ''hi'' 1 (Some (newError ''threw'')) testServer)
       @ SendCalled \<lparr> mid = ''client:1'', mtype = ''result'', mmethod = [], mparams = [],
                       mevent = [], mdata = [], mresult = Some JNull, merror = None \<rparr> # rest"
    using notify_ack_first [of "\<lparr> mid = ''client:1'', mtype = ''notify'', mmethod = [],
        mparams = [], mevent = ''hi'', mdata = [JNum 7], mresult = None, merror = None \<rparr>"
        wrapEffectsDefault "on ''hi'' 1 (Some (newError ''threw'')) testServer"] h
    by simp
  then show ?thesis
    by (simp add: incoming_def notifyIncoming_def wrapEffectsDefault_def sendResult_def
        writeFrame_def transmit_def on_def testServer_def setSend_def noop_def create_def
        emitLocal_def Let_def)
qed

text \<open>
  The round trip of \<open>echo\<close> between the two pairs of the tests: a value that is not
  taken for a thenable comes back as it is when it is truthy, and as \<open>null\<close> otherwise.
\<close>

lemma sendResult_frame:
  "send p = noop \<Longrightarrow>
   sent (sendResult i v p) = sent p @ [\<lparr> mid = i, mtype = ''result'', mmethod = [], mparams = [],
       mevent = [], mdata = [], mresult = Some (if truthy v then v else JNull), merror = None \<rparr>]"
  by (simp add: sendResult_def writeFrame_def transmit_def noop_def sent_def)

lemma echo_round_trip:
  assumes "\<not> hasThen v"
  shows "callPromise (fst (call None ''echo'' [v] (testClient (expose ''echo'' echo testServer))))
           (snd (call None ''echo'' [v] (testClient (expose ''echo'' echo testServer))))
         = Fulfilled (if truthy v then v else JNull)"
proof -
  define server where "server = expose ''echo'' echo testServer"
  define m where "m = \<lparr> mid = ''client:1'', mtype = ''call'', mmethod = ''echo'', mparams = [v],
      mevent = [], mdata = [], mresult = None, merror = None \<rparr>"
  define r where "r = \<lparr> rid = ''client:1'', rresult = Some (if truthy v then v else JNull),
      rerror = None \<rparr>"
  have sv: "send server = noop" "methods server ''echo'' = Some echo"
    by (simp_all add: server_def expose_def testServer_def setSend_def)
  have inc: "incoming wrapEffectsDefault m server = (None, sendResult ''client:1'' v server)"
    using assms sv
    by (simp add: incoming_def m_def callIncoming_def runEnsuringPromise_def echo_def thenOf_def)
  have lb: "loopback wrapEffectsDefault server m = ([r], None)"
    using sendResult_frame [OF sv(1), of "''client:1''" v]
    by (simp add: loopback_def inc asReply_def r_def)
  define c where "c = (testClient server)\<lparr> outgoingId := 1 \<rparr>"
  have cl: "call None ''echo'' [v] (testClient server) = acknowledgedWrite m 75 c"
    by (simp add: call_def createNextOutgoingId_def testClient_def setSend_def create_def
        showNat.simps m_def c_def)
  have a: "acknowledgedWrite m 75 c =
             (length (waiting c),
              c\<lparr> waiting := waiting c @ [Fulfilled (Frame (replyFrame r))],
                 trace := trace c @ [SendCalled m],
                 ptimers := ptimers c @
                   [(length (waiting c), ''TimeoutWaitingForWriteAck<'' @ mid m @ '','' @ mtype m
                        @ '',duration: '' @ showNat 75 @ ''>'')] \<rparr>)"
  proof (rule acknowledgedWrite_answered)
    show "send c m = ([r], None)"
      using lb by (simp add: c_def testClient_def setSend_def)
    show "rid r = mid m" by (simp add: r_def m_def)
    show "\<forall>l \<in> set (localListeners c). fst l \<noteq> resultEvent m"
      by (simp add: c_def testClient_def setSend_def create_def)
  qed
  have h: "handleResult (Frame (replyFrame r)) = Fulfilled (if truthy v then v else JNull)"
    by (simp add: handleResult_def replyFrame_def r_def field_def frameObj_def)
  show ?thesis
    unfolding server_def [symmetric] cl a
    by (simp add: callPromise_def h)
qed

text \<open>
  Claim C2 says that \<open>echo(v)\<close> resolves to \<open>v\<close> for every JSON value, the falsy ones
  included. \<open>sendResult\<close> writes \<open>result || null\<close>: for \<open>0\<close>, \<open>false\<close> and the empty
  string the caller's promise is fulfilled with \<open>null\<close>.
\<close>

theorem echo_falsy_is_null:
  "callPromise (fst (call None ''echo'' [JNum 0] (testClient (expose ''echo'' echo testServer))))
     (snd (call None ''echo'' [JNum 0] (testClient (expose ''echo'' echo testServer))))
     = Fulfilled JNull
   \<and> callPromise (fst (call None ''echo'' [JBool False] (testClient (expose ''echo'' echo testServer))))
     (snd (call None ''echo'' [JBool False] (testClient (expose ''echo'' echo testServer))))
     = Fulfilled JNull
   \<and> callPromise (fst (call None ''echo'' [JStr []] (testClient (expose ''echo'' echo testServer))))
     (snd (call None ''echo'' [JStr []] (testClient (expose ''echo'' echo testServer))))
     = Fulfilled JNull"
  by code_simp







lemma issuedId_mono:
  "issuedId i p \<Longrightarrow> name q = name p \<Longrightarrow> outgoingId p \<le> outgoingId q \<Longrightarrow> issuedId i q"
  by (fastforce simp add: issuedId_def list_ex_iff)


text \<open>What the operations of a pair leave alone.\<close>

lemma resolveWaiter_fields [simp]:
  "name (resolveWaiter q args p) = name p" "send (resolveWaiter q args p) = send p"
  "outgoingId (resolveWaiter q args p) = outgoingId p"
  "length (waiting (resolveWaiter q args p)) = length (waiting p)"
  "localListeners (resolveWaiter q args p) = localListeners p"
  "methods (resolveWaiter q args p) = methods p"
  by (simp_all add: resolveWaiter_def)

lemma deliver_static:
  "name (snd (deliver ls ev args p)) = name p \<and> send (snd (deliver ls ev args p)) = send p \<and>
   outgoingId (snd (deliver ls ev args p)) = outgoingId p \<and>
   length (waiting (snd (deliver ls ev args p))) = length (waiting p) \<and>
   methods (snd (deliver ls ev args p)) = methods p"
proof (induction ls ev args p rule: deliver.induct)
  case (1 ev args p)
  show ?case by simp
next
  case (2 pid ls ev args p)
  then show ?case by simp
next
  case (3 l one thrown ls ev args p)
  show ?case
  proof (cases thrown)
    case None
    then show ?thesis using 3 [OF refl refl None] by (cases one) (simp_all add: Let_def)
  next
    case (Some e)
    then show ?thesis by (simp add: Let_def)
  qed
qed

lemma deliver_fields [simp]:
  "name (snd (deliver ls ev args p)) = name p" "send (snd (deliver ls ev args p)) = send p"
  "outgoingId (snd (deliver ls ev args p)) = outgoingId p"
  "length (waiting (snd (deliver ls ev args p))) = length (waiting p)"
  "methods (snd (deliver ls ev args p)) = methods p"
  using deliver_static [of ls ev args p] by simp_all

lemma emitLocal_fields [simp]:
  "name (snd (emitLocal ev args p)) = name p" "send (snd (emitLocal ev args p)) = send p"
  "outgoingId (snd (emitLocal ev args p)) = outgoingId p"
  "length (waiting (snd (emitLocal ev args p))) = length (waiting p)"
  "methods (snd (emitLocal ev args p)) = methods p"
  by (simp_all add: emitLocal_def)

lemma replies_fields [simp]:
  "name (fold (\<lambda>r q. snd (emitLocal (f r) (g r) q)) rs p) = name p"
  "send (fold (\<lambda>r q. snd (emitLocal (f r) (g r) q)) rs p) = send p"
  "outgoingId (fold (\<lambda>r q. snd (emitLocal (f r) (g r) q)) rs p) = outgoingId p"
  "length (waiting (fold (\<lambda>r q. snd (emitLocal (f r) (g r) q)) rs p)) = length (waiting p)"
  "methods (fold (\<lambda>r q. snd (emitLocal (f r) (g r) q)) rs p) = methods p"
proof -
  have "name (fold (\<lambda>r q. snd (emitLocal (f r) (g r) q)) rs p) = name p \<and>
        send (fold (\<lambda>r q. snd (emitLocal (f r) (g r) q)) rs p) = send p \<and>
        outgoingId (fold (\<lambda>r q. snd (emitLocal (f r) (g r) q)) rs p) = outgoingId p \<and>
        length (waiting (fold (\<lambda>r q. snd (emitLocal (f r) (g r) q)) rs p)) = length (waiting p) \<and>
        methods (fold (\<lambda>r q. snd (emitLocal (f r) (g r) q)) rs p) = methods p"
    by (induction rs arbitrary: p) simp_all
  then show "name (fold (\<lambda>r q. snd (emitLocal (f r) (g r) q)) rs p) = name p"
    "send (fold (\<lambda>r q. snd (emitLocal (f r) (g r) q)) rs p) = send p"
    "outgoingId (fold (\<lambda>r q. snd (emitLocal (f r) (g r) q)) rs p) = outgoingId p"
    "length (waiting (fold (\<lambda>r q. snd (emitLocal (f r) (g r) q)) rs p)) = length (waiting p)"
    "methods (fold (\<lambda>r q. snd (emitLocal (f r) (g r) q)) rs p) = methods p"
    by simp_all
qed

lemma transmit_fields [simp]:
  "name (snd (transmit m p)) = name p" "send (snd (transmit m p)) = send p"
  "outgoingId (snd (transmit m p)) = outgoingId p"
  "length (waiting (snd (transmit m p))) = length (waiting p)"
  "methods (snd (transmit m p)) = methods p"
  by (simp_all add: transmit_def split: prod.splits)


lemma writeFrame_fields [simp]:
  "name (writeFrame m p) = name p" "send (writeFrame m p) = send p"
  "outgoingId (writeFrame m p) = outgoingId p"
  "length (waiting (writeFrame m p)) = length (waiting p)"
  "methods (writeFrame m p) = methods p"
proof -
  define q where "q = snd (transmit m p)"
  define th where "th = fst (transmit m p)"
  have t: "transmit m p = (th, q)" by (simp add: q_def th_def)
  have q: "name q = name p" "send q = send p" "outgoingId q = outgoingId p"
    "length (waiting q) = length (waiting p)" "methods q = methods p"
    by (simp_all add: q_def)
  show "name (writeFrame m p) = name p" "send (writeFrame m p) = send p"
    "outgoingId (writeFrame m p) = outgoingId p"
    "length (waiting (writeFrame m p)) = length (waiting p)"
    "methods (writeFrame m p) = methods p"
    using q by (simp_all add: writeFrame_def t error_def split: option.splits)
qed

lemma sendResult_fields [simp]:
  "name (sendResult i v p) = name p" "send (sendResult i v p) = send p"
  "outgoingId (sendResult i v p) = outgoingId p"
  "length (waiting (sendResult i v p)) = length (waiting p)"
  "methods (sendResult i v p) = methods p"
  by (simp_all add: sendResult_def)

lemma sendError_fields [simp]:
  "name (snd (sendError i e p)) = name p" "send (snd (sendError i e p)) = send p"
  "outgoingId (snd (sendError i e p)) = outgoingId p"
  "length (waiting (snd (sendError i e p))) = length (waiting p)"
  "methods (snd (sendError i e p)) = methods p"
  by (simp_all add: sendError_def split: sum.splits)

lemma callIncoming_fields [simp]:
  "name (snd (callIncoming m p)) = name p" "send (snd (callIncoming m p)) = send p"
  "outgoingId (snd (callIncoming m p)) = outgoingId p"
  "length (waiting (snd (callIncoming m p))) = length (waiting p)"
  "methods (snd (callIncoming m p)) = methods p"
  by (simp_all add: callIncoming_def split: option.splits sum.splits settle.splits)

lemma notifyIncoming_fields [simp]:
  "name (snd (notifyIncoming wrapEffectsDefault m p)) = name p"
  "send (snd (notifyIncoming wrapEffectsDefault m p)) = send p"
  "outgoingId (snd (notifyIncoming wrapEffectsDefault m p)) = outgoingId p"
  "length (waiting (snd (notifyIncoming wrapEffectsDefault m p))) = length (waiting p)"
  "methods (snd (notifyIncoming wrapEffectsDefault m p)) = methods p"
  by (simp_all add: notifyIncoming_def wrapEffectsDefault_def)

lemma incoming_fields [simp]:
  "name (snd (incoming wrapEffectsDefault m p)) = name p"
  "send (snd (incoming wrapEffectsDefault m p)) = send p"
  "outgoingId (snd (incoming wrapEffectsDefault m p)) = outgoingId p"
  "length (waiting (snd (incoming wrapEffectsDefault m p))) = length (waiting p)"
  "methods (snd (incoming wrapEffectsDefault m p)) = methods p"
  by (simp_all add: incoming_def error_def)

lemma acknowledgedWrite_fields [simp]:
  "name (snd (acknowledgedWrite m t p)) = name p"
  "send (snd (acknowledgedWrite m t p)) = send p"
  "outgoingId (snd (acknowledgedWrite m t p)) = outgoingId p"
  "methods (snd (acknowledgedWrite m t p)) = methods p"
proof -
  define p1 where "p1 = p\<lparr> waiting := waiting p @ [Pending],
      localListeners := localListeners p @ [(resultEvent m, Waiter (length (waiting p)))] \<rparr>"
  define q where "q = snd (transmit m p1)"
  define th where "th = fst (transmit m p1)"
  have t: "transmit m p1 = (th, q)" by (simp add: q_def th_def)
  have q: "name q = name p" "send q = send p" "outgoingId q = outgoingId p" "methods q = methods p"
    by (simp_all add: q_def p1_def)
  show "name (snd (acknowledgedWrite m t p)) = name p"
    "send (snd (acknowledgedWrite m t p)) = send p"
    "outgoingId (snd (acknowledgedWrite m t p)) = outgoingId p"
    "methods (snd (acknowledgedWrite m t p)) = methods p"
    using q by (simp_all add: acknowledgedWrite_def Let_def p1_def [symmetric] t split: option.splits)
qed


lemma timeoutFires_fields [simp]:
  "name (timeoutFires q p) = name p" "send (timeoutFires q p) = send p"
  "outgoingId (timeoutFires q p) = outgoingId p"
  "length (waiting (timeoutFires q p)) = length (waiting p)"
  "methods (timeoutFires q p) = methods p"
  by (simp_all add: timeoutFires_def split: option.splits)

lemma pstep_name [simp]: "name (pstep x p) = name p"
  by (cases x) (simp_all add: call_def emit_def createNextOutgoingId_def on_def once_def
      expose_def setSend_def)

lemma pstep_outgoingId: "outgoingId p \<le> outgoingId (pstep x p)"
  by (cases x) (simp_all add: call_def emit_def createNextOutgoingId_def on_def once_def
      expose_def setSend_def)


lemma issuedId_pstep: "issuedId i p \<Longrightarrow> issuedId i (pstep x p)"
  using issuedId_mono [of i p "pstep x p"] pstep_outgoingId [of p x] by simp

lemma issuedId_fold: "issuedId i p \<Longrightarrow> issuedId i (fold pstep xs p)"
  by (induction xs arbitrary: p) (simp_all add: issuedId_pstep)



















lemma waitsFor_trace [simp]: "waitsFor ev q (p\<lparr> trace := t \<rparr>) = waitsFor ev q p"
  by (simp add: waitsFor_def)


















text \<open>
  An outgoing operation adds one waiter, for the id it issues and the promise it makes;
  the host program adds its own listeners; nothing else adds a listener.
\<close>

lemma waitsFor_ptimers [simp]: "waitsFor ev q (p\<lparr> ptimers := t \<rparr>) = waitsFor ev q p"
  by (simp add: waitsFor_def)

lemma waitsFor_outgoingId [simp]: "waitsFor ev q (p\<lparr> outgoingId := n \<rparr>) = waitsFor ev q p"
  by (simp add: waitsFor_def)




lemma call_is_write:
  "call opt meth ps p =
     acknowledgedWrite
       \<lparr> mid = name p @ '':'' @ showNat (Suc (outgoingId p)), mtype = ''call'', mmethod = meth,
         mparams = ps, mevent = [], mdata = [], mresult = None, merror = None \<rparr>
       (case opt of Some t \<Rightarrow> t | None \<Rightarrow> timeout p)
       (p\<lparr> outgoingId := Suc (outgoingId p) \<rparr>)"
  by (simp add: call_def createNextOutgoingId_def split: option.splits)

lemma emit_is_write:
  "emit opt evt dat p =
     acknowledgedWrite
       \<lparr> mid = name p @ '':'' @ showNat (Suc (outgoingId p)), mtype = ''notify'', mmethod = [],
         mparams = [], mevent = evt, mdata = dat, mresult = None, merror = None \<rparr>
       (case opt of Some t \<Rightarrow> t | None \<Rightarrow> emitTimeout p)
       (p\<lparr> outgoingId := Suc (outgoingId p) \<rparr>)"
  by (simp add: emit_def createNextOutgoingId_def split: option.splits)







lemma pstep_send:
  "send (pstep x p) = (case x of SetSend fn \<Rightarrow> fn | _ \<Rightarrow> send p)"
  by (cases x) (simp_all add: call_is_write emit_is_write on_def once_def expose_def setSend_def)

























end
